theory Spec2Isabelle
  imports Complex_Main "HOL-Library.List_Lexorder"
begin

section \<open>JavaScript values and built-ins the adapters rely on\<close>

subsection \<open>Strings\<close>

text \<open>
  A JavaScript string is a sequence of UTF-16 code units; a code unit is a natural number
  (below 65536). \<open>str\<close> gives the code units of an ASCII literal. Strings compare
  lexicographically by code unit.
\<close>

type_synonym jsstring = "nat list"

definition str :: "string \<Rightarrow> jsstring" where
  "str s = map of_char s"

text \<open>The classes \<open>\d\<close> and \<open>\w\<close> of a regular expression without the unicode flag.\<close>

definition isDigit :: "nat \<Rightarrow> bool" where
  "isDigit c = (0x30 \<le> c \<and> c \<le> 0x39)"

definition isWordChar :: "nat \<Rightarrow> bool" where
  "isWordChar c = ((0x61 \<le> c \<and> c \<le> 0x7A) \<or> (0x41 \<le> c \<and> c \<le> 0x5A) \<or> isDigit c \<or> c = 0x5F)"

text \<open>
  The line terminators (LF, CR, LS, PS) and the white space of ECMAScript: TAB, VT, FF,
  the space, the no-break space, the byte order mark and the other space separators of
  Unicode. \<open>String.prototype.trim\<close> and \<open>parseInt\<close> strip both.
\<close>

definition isLineTerminator :: "nat \<Rightarrow> bool" where
  "isLineTerminator c = (c = 0x0A \<or> c = 0x0D \<or> c = 0x2028 \<or> c = 0x2029)"

definition isWhiteSpace :: "nat \<Rightarrow> bool" where
  "isWhiteSpace c = (c = 0x09 \<or> c = 0x0B \<or> c = 0x0C \<or> c = 0x20 \<or> c = 0xA0 \<or> c = 0x1680
     \<or> (0x2000 \<le> c \<and> c \<le> 0x200A) \<or> c = 0x202F \<or> c = 0x205F \<or> c = 0x3000 \<or> c = 0xFEFF
     \<or> isLineTerminator c)"

definition trim :: "jsstring \<Rightarrow> jsstring" where
  "trim s = rev (dropWhile isWhiteSpace (rev (dropWhile isWhiteSpace s)))"

text \<open>\<open>s.split(sep)\<close> for a one-character separator: the empty string gives one empty token.\<close>

fun splitFrom :: "nat \<Rightarrow> jsstring \<Rightarrow> jsstring \<Rightarrow> jsstring list" where
  "splitFrom sep cur [] = [cur]"
| "splitFrom sep cur (c # cs) =
     (if c = sep then cur # splitFrom sep [] cs else splitFrom sep (cur @ [c]) cs)"

definition split :: "nat \<Rightarrow> jsstring \<Rightarrow> jsstring list" where
  "split sep s = splitFrom sep [] s"

text \<open>
  \<open>a || b\<close> on values that are a string or absent: the left operand when it is truthy
  (a non-empty string), else the right one. \<open>orString\<close> is the same with a right operand
  that is always a string.
\<close>

definition orElse :: "jsstring option \<Rightarrow> jsstring option \<Rightarrow> jsstring option" where
  "orElse a b = (case a of None \<Rightarrow> b | Some s \<Rightarrow> if s \<noteq> [] then Some s else b)"

definition orString :: "jsstring option \<Rightarrow> jsstring \<Rightarrow> jsstring" where
  "orString a d = (case a of None \<Rightarrow> d | Some s \<Rightarrow> if s \<noteq> [] then s else d)"


subsection \<open>Whole numbers\<close>

text \<open>
  The numbers the adapters produce: \<open>NaN\<close>, the two infinities, or a double whose value
  is a whole number (the two zeros are one value). \<open>toNumber\<close> is the Number value of a
  mathematical integer: the nearest double, a tie going to the even significand, and an
  infinity from \<open>2^1024 - 2^970\<close> on. Below \<open>2^53\<close> it is the integer itself.
\<close>

datatype number = NaN | Num int | PosInfinity | NegInfinity

fun bitLength :: "nat \<Rightarrow> nat" where
  "bitLength n = (if n = 0 then 0 else Suc (bitLength (n div 2)))"

declare bitLength.simps [simp del]

text \<open>The integer nearest to \<open>a / q\<close>, for \<open>a \<ge> 0\<close> and \<open>q > 0\<close>, a tie going to the even one.\<close>

definition roundHalfEven :: "int \<Rightarrow> int \<Rightarrow> int" where
  "roundHalfEven a q =
     (let f = a div q; r = a mod q
      in if 2 * r < q then f else if q < 2 * r then f + 1 else if even f then f else f + 1)"

definition toNumber :: "int \<Rightarrow> number" where
  "toNumber n =
     (let a = \<bar>n\<bar>;
          q = 2 ^ (bitLength (nat a) - 53);
          r = roundHalfEven a q * q
      in if 2 ^ 1024 \<le> r then (if n < 0 then NegInfinity else PosInfinity)
         else Num (sgn n * r))"

definition digitValue :: "nat \<Rightarrow> int" where
  "digitValue c = int c - 0x30"

definition digitsValue :: "jsstring \<Rightarrow> int" where
  "digitsValue Z = foldl (\<lambda>a c. 10 * a + digitValue c) 0 Z"

fun stripSign :: "jsstring \<Rightarrow> int \<times> jsstring" where
  "stripSign [] = (1, [])"
| "stripSign (c # cs) =
     (if c = 0x2D then (- 1, cs) else if c = 0x2B then (1, cs) else (1, c # cs))"

text \<open>
  \<open>parseInt(s, 10)\<close>: skip leading white space, read an optional sign, then the longest
  run of decimal digits; no digit gives \<open>NaN\<close>. Whatever follows the digits is ignored. The
  result is the Number value of the signed integer the digits denote (a platform may zero
  the digits after the twentieth before it rounds; the digits are taken as they stand).
\<close>

definition parseInt :: "jsstring \<Rightarrow> number" where
  "parseInt inputString =
     (let (sign, S) = stripSign (dropWhile isWhiteSpace inputString);
          Z = takeWhile isDigit S
      in if Z = [] then NaN else toNumber (sign * digitsValue Z))"

text \<open>\<open>Math.round\<close>: the nearest integer, a tie going up.\<close>

definition Math_round :: "real \<Rightarrow> int" where
  "Math_round x = \<lfloor>x + 1 / 2\<rfloor>"

text \<open>\<open>x || 0\<close> on a number: \<open>NaN\<close> and zero are falsy.\<close>

definition orZero :: "number \<Rightarrow> number" where
  "orZero x = (if x = NaN \<or> x = Num 0 then Num 0 else x)"


subsection \<open>Coordinates\<close>

text \<open>
  A coordinate or a distance is a finite double, taken as the real number it denotes;
  \<open>NaN\<close> and the infinities are not values here. \<open>roundToDouble\<close> is the double nearest
  to a real number, with 53 significant bits and a tie going to the even significand;
  the sum and the difference of two doubles are the rounded exact results (sums and
  differences of doubles do not underflow, and the exponent range is not limited here).
  ECMAScript leaves \<open>Math.sqrt\<close> and \<open>**\<close> implementation-approximated: they are the
  fields of the record \<open>Math\<close>, a parameter of what uses them.
\<close>

definition roundEven :: "real \<Rightarrow> int" where
  "roundEven x =
     (let f = \<lfloor>x\<rfloor>; d = x - of_int f
      in if d < 1 / 2 then f else if 1 / 2 < d then f + 1 else if even f then f else f + 1)"

definition roundToDouble :: "real \<Rightarrow> real" where
  "roundToDouble x =
     (if x = 0 then 0
      else let ulp = 2 powr of_int (\<lfloor>log 2 \<bar>x\<bar>\<rfloor> - 52)
           in of_int (roundEven (x / ulp)) * ulp)"

definition Number_add :: "real \<Rightarrow> real \<Rightarrow> real" where
  "Number_add x y = roundToDouble (x + y)"

definition Number_subtract :: "real \<Rightarrow> real \<Rightarrow> real" where
  "Number_subtract x y = roundToDouble (x - y)"

record Math =
  Math_sqrt :: "real \<Rightarrow> real"
  exponentiate :: "real \<Rightarrow> real \<Rightarrow> real"


subsection \<open>One object or an array of them\<close>

text \<open>
  A field that holds one object, a list of them, or nothing: \<open>Absent\<close> is a falsy value,
  \<open>One\<close> a value for which \<open>Array.isArray\<close> is false, \<open>Many\<close> an array.
\<close>

datatype 'a one_or_many = Absent | One 'a | Many "'a list"


section \<open>The unified arrival record (models/transit)\<close>

datatype Crowding = Low | Medium | High

record ArrivalPrediction =
  line :: jsstring
  destination :: jsstring
  timeMinutes :: number
  isGhost :: bool
  vehicleId :: "jsstring option"
  crowding :: "Crowding option"
  platform :: "jsstring option"


section \<open>GO Transit adapter (components/fetch/adapters)\<close>

text \<open>
  Fields are typed as \<open>GoTransitService\<close> declares them; a field the adapter reads under
  \<open>||\<close>, \<open>?.\<close> or a truthiness test may be absent. In the envelope the fields
  \<open>agency\<close> and \<open>stopCode\<close> carry the prefix \<open>resp_\<close>: a field name belongs to
  one record.
\<close>

record GoTransitService =
  LineCode :: jsstring
  LineName :: "jsstring option"
  DirectionName :: jsstring
  ScheduledDepartureTime :: jsstring
  ComputedDepartureTime :: "jsstring option"
  ScheduledPlatform :: "jsstring option"
  ActualPlatform :: "jsstring option"
  Carrier :: jsstring
  BusNumber :: "jsstring option"
  TrainNumber :: "jsstring option"
  DelaySeconds :: int
  Computed :: int

record GoData =
  NextService :: "GoTransitService one_or_many"
  StopCode :: "jsstring option"

record GoResponse =
  resp_agency :: jsstring
  resp_stopCode :: jsstring
  data :: "GoData option"

text \<open>
  The body of the \<open>map\<close> callback. \<open>Date_parse\<close> is the platform's date parser
  (\<open>new Date(s).getTime()\<close>, \<open>None\<close> for an invalid date, in milliseconds) and \<open>now\<close>
  the clock reading \<open>new Date()\<close> taken inside the callback. Timestamps are whole
  milliseconds and their difference is divided exactly; \<open>Math.max\<close> and \<open>Math.round\<close>
  of \<open>NaN\<close> are \<open>NaN\<close>.
\<close>

definition goService :: "(jsstring \<Rightarrow> int option) \<Rightarrow> int \<Rightarrow> GoTransitService \<Rightarrow> ArrivalPrediction" where
  "goService Date_parse now service =
     (let scheduledTime = Date_parse (ScheduledDepartureTime service);
          computedTime = (case ComputedDepartureTime service of
                            None \<Rightarrow> scheduledTime
                          | Some c \<Rightarrow> if c \<noteq> [] then Date_parse c else scheduledTime);
          departureTime = (if Computed service = 1 then computedTime else scheduledTime);
          timeMinutes = (case departureTime of
                           None \<Rightarrow> NaN
                         | Some t \<Rightarrow> Num (max 0 (Math_round (real_of_int (t - now) / 60000))));
          isGhost = (Computed service = 0);
          vehicleId = orElse (orElse (TrainNumber service) (BusNumber service)) None;
          platform = orElse (orElse (ActualPlatform service) (ScheduledPlatform service)) None
      in \<lparr> line = orString (LineName service) (LineCode service),
           destination = DirectionName service,
           timeMinutes = timeMinutes,
           isGhost = isGhost,
           vehicleId = vehicleId,
           crowding = None,
           platform = platform \<rparr>)"

text \<open>
  The clock is read once per service entry: \<open>clock i\<close> is the reading taken while the
  entry at index \<open>i\<close> is converted.
\<close>

definition normalizeGoTransit ::
  "(jsstring \<Rightarrow> int option) \<Rightarrow> (nat \<Rightarrow> int) \<Rightarrow> GoResponse \<Rightarrow> ArrivalPrediction list" where
  "normalizeGoTransit Date_parse clock apiResponse =
     (case data apiResponse of
        None \<Rightarrow> []
      | Some d \<Rightarrow>
          (case NextService d of
             Absent \<Rightarrow> []
           | One _ \<Rightarrow> []
           | Many services \<Rightarrow>
               map (\<lambda>(i, service). goService Date_parse (clock i) service)
                 (enumerate 0 services)))"


section \<open>TTC adapter\<close>

text \<open>
  Modelled from the spec: the declaration of \<open>EtaPredictionJson\<close> (models/etaJson) is not
  among the sources. The records hold the fields the adapter reads, in the nesting the
  specification gives: predictions, then directions, then single arrival estimates, each
  level a bare object or a list.
\<close>

record EtaBusJson =
  minutes :: jsstring
  vehicle :: "jsstring option"

record EtaDirection =
  title :: "jsstring option"
  prediction :: "EtaBusJson one_or_many"

record EtaPredictions =
  routeTag :: "jsstring option"
  direction :: "EtaDirection one_or_many"

record EtaPredictionJson =
  predictions :: "EtaPredictions one_or_many"

text \<open>Group 1 of \<open>/^(\d+\w*)/\<close>: a non-empty run of digits, then every word character after it.\<close>

definition lineRegex :: "jsstring \<Rightarrow> jsstring option" where
  "lineRegex s =
     (let ds = takeWhile isDigit s
      in if ds = [] then None else Some (ds @ takeWhile isWordChar (dropWhile isDigit s)))"

text \<open>
  Under the flag \<open>i\<close> a code unit matches a letter of the pattern \<open>towards\<close> when it is that
  letter in either case: no other code unit has one of these letters as its upper case
  under the canonicalisation of a pattern without the unicode flag.
\<close>

definition toLower :: "nat \<Rightarrow> nat" where
  "toLower c = (if 0x41 \<le> c \<and> c \<le> 0x5A then c + 0x20 else c)"

text \<open>
  Group 1 of \<open>/towards (.+)$/i\<close>: at the leftmost position where the literal matches, in
  any letter case, and is followed to the end of the string by at least one character and
  no line terminator, everything after the literal.
\<close>

fun destRegex :: "jsstring \<Rightarrow> jsstring option" where
  "destRegex [] = None"
| "destRegex (c # cs) =
     (let rest = drop 8 (c # cs)
      in if map toLower (take 8 (c # cs)) = str ''towards '' \<and> rest \<noteq> []
            \<and> \<not> list_ex isLineTerminator rest
         then Some rest else destRegex cs)"

text \<open>
  The body of the innermost loop: the record pushed for one arrival estimate, from the
  route tag of the prediction, the title of the direction and the estimate.
\<close>

definition ttcRecord :: "jsstring option \<Rightarrow> jsstring option \<Rightarrow> EtaBusJson \<Rightarrow> ArrivalPrediction" where
  "ttcRecord pred_routeTag dir_title eta =
     (let lineMatch = (case Option.bind dir_title lineRegex of
                         Some m \<Rightarrow> Some m
                       | None \<Rightarrow> Option.bind pred_routeTag lineRegex);
          line = orString (orElse lineMatch pred_routeTag) [];
          destMatch = Option.bind dir_title destRegex;
          destination = orString (orElse destMatch dir_title) []
      in \<lparr> line = line,
           destination = destination,
           timeMinutes = orZero (parseInt (minutes eta)),
           isGhost = False,
           vehicleId = vehicle eta,
           crowding = None,
           platform = None \<rparr>)"

definition ttcPrediction :: "EtaPredictions \<Rightarrow> EtaDirection \<Rightarrow> EtaBusJson \<Rightarrow> ArrivalPrediction" where
  "ttcPrediction pred dir eta = ttcRecord (routeTag pred) (title dir) eta"

text \<open>In the loops below \<open>acc\<close> is the array \<open>predictions\<close> that the source pushes onto.\<close>

fun etaLoop ::
  "EtaPredictions \<Rightarrow> EtaDirection \<Rightarrow> EtaBusJson list \<Rightarrow> ArrivalPrediction list \<Rightarrow> ArrivalPrediction list" where
  "etaLoop pred dir [] acc = acc"
| "etaLoop pred dir (eta # etas) acc =
     etaLoop pred dir etas (acc @ [ttcPrediction pred dir eta])"

fun directionLoop ::
  "EtaPredictions \<Rightarrow> EtaDirection list \<Rightarrow> ArrivalPrediction list \<Rightarrow> ArrivalPrediction list" where
  "directionLoop pred [] acc = acc"
| "directionLoop pred (dir # directions) acc =
     (case prediction dir of
        Absent \<Rightarrow> directionLoop pred directions acc
      | One eta \<Rightarrow> directionLoop pred directions (etaLoop pred dir [eta] acc)
      | Many etas \<Rightarrow> directionLoop pred directions (etaLoop pred dir etas acc))"

fun predictionLoop :: "EtaPredictions list \<Rightarrow> ArrivalPrediction list \<Rightarrow> ArrivalPrediction list" where
  "predictionLoop [] acc = acc"
| "predictionLoop (pred # predictionsArray) acc =
     (case direction pred of
        Absent \<Rightarrow> predictionLoop predictionsArray acc
      | One dir \<Rightarrow> predictionLoop predictionsArray (directionLoop pred [dir] acc)
      | Many directions \<Rightarrow>
          predictionLoop predictionsArray (directionLoop pred directions acc))"

definition normalizeTtc :: "EtaPredictionJson \<Rightarrow> ArrivalPrediction list" where
  "normalizeTtc json =
     (case predictions json of
        Absent \<Rightarrow> []
      | One pred \<Rightarrow> predictionLoop [pred] []
      | Many predictionsArray \<Rightarrow> predictionLoop predictionsArray [])"


section \<open>TTC subway adapter\<close>

text \<open>
  The line of an item is a number; \<open>Number_toString\<close> is the platform's rendering of a
  number in a template literal.
\<close>

record SubwayItem =
  nextTrains :: "jsstring option"
  directionText :: "jsstring option"
  item_line :: "real option"

definition subwayPrediction :: "(real \<Rightarrow> jsstring) \<Rightarrow> SubwayItem \<Rightarrow> number \<Rightarrow> ArrivalPrediction" where
  "subwayPrediction Number_toString item t =
     \<lparr> line = (case item_line item of
                 None \<Rightarrow> str ''Subway''
               | Some l \<Rightarrow> if l \<noteq> 0 then str ''Line '' @ Number_toString l else str ''Subway''),
       destination = orString (directionText item) [],
       timeMinutes = t,
       isGhost = False,
       vehicleId = None,
       crowding = None,
       platform = None \<rparr>"

fun timesLoop ::
  "(real \<Rightarrow> jsstring) \<Rightarrow> SubwayItem \<Rightarrow> number list \<Rightarrow> ArrivalPrediction list \<Rightarrow> ArrivalPrediction list" where
  "timesLoop Number_toString item [] acc = acc"
| "timesLoop Number_toString item (t # rest) acc =
     (if t = NaN then timesLoop Number_toString item rest acc
      else timesLoop Number_toString item rest (acc @ [subwayPrediction Number_toString item t]))"

definition parseTimes :: "jsstring \<Rightarrow> number list" where
  "parseTimes s = map (\<lambda>t. parseInt (trim t)) (split 0x2C s)"

fun subwayLoop ::
  "(real \<Rightarrow> jsstring) \<Rightarrow> SubwayItem list \<Rightarrow> ArrivalPrediction list \<Rightarrow> ArrivalPrediction list" where
  "subwayLoop Number_toString [] acc = acc"
| "subwayLoop Number_toString (item # response) acc =
     (case nextTrains item of
        None \<Rightarrow> subwayLoop Number_toString response acc
      | Some s \<Rightarrow>
          if s = [] then subwayLoop Number_toString response acc
          else subwayLoop Number_toString response (timesLoop Number_toString item (parseTimes s) acc))"

definition normalizeTtcSubway :: "(real \<Rightarrow> jsstring) \<Rightarrow> SubwayItem list \<Rightarrow> ArrivalPrediction list" where
  "normalizeTtcSubway Number_toString response = subwayLoop Number_toString response []"


section \<open>The adapters on payloads with null entries\<close>

text \<open>
  The adapters as they run on what \<open>JSON.parse\<close> may hand them: the payload, and any
  entry of an array they iterate, may be \<open>null\<close> (\<open>None\<close>) where the declared type has an
  object. Reading a property of \<open>null\<close> throws \<open>TypeError\<close>, and so does iterating it.
  Every other field has its declared type. A field that holds \<open>null\<close> is falsy, like an
  absent one. The records carry the prefix \<open>Raw\<close>, their fields \<open>raw_\<close>; those of
  the TTC payload follow the records of the section on the TTC adapter.
\<close>

datatype js_error = TypeError

datatype 'a raw_one_or_many = RawAbsent | RawOne 'a | RawMany "'a option list"

record RawGoData =
  raw_NextService :: "GoTransitService raw_one_or_many"
  raw_StopCode :: "jsstring option"

record RawGoResponse =
  raw_agency :: jsstring
  raw_stopCode :: jsstring
  raw_data :: "RawGoData option"

text \<open>\<open>services.map(callback)\<close>: the callback reads \<open>service.ScheduledDepartureTime\<close> first.\<close>

fun raw_serviceMap ::
  "(jsstring \<Rightarrow> int option) \<Rightarrow> (nat \<Rightarrow> int) \<Rightarrow> nat \<Rightarrow> GoTransitService option list \<Rightarrow>
     js_error + ArrivalPrediction list" where
  "raw_serviceMap Date_parse clock i [] = Inr []"
| "raw_serviceMap Date_parse clock i (None # services) = Inl TypeError"
| "raw_serviceMap Date_parse clock i (Some service # services) =
     (case raw_serviceMap Date_parse clock (Suc i) services of
        Inl e \<Rightarrow> Inl e
      | Inr ps \<Rightarrow> Inr (goService Date_parse (clock i) service # ps))"

definition raw_normalizeGoTransit ::
  "(jsstring \<Rightarrow> int option) \<Rightarrow> (nat \<Rightarrow> int) \<Rightarrow> RawGoResponse option \<Rightarrow>
     js_error + ArrivalPrediction list" where
  "raw_normalizeGoTransit Date_parse clock apiResponse =
     (case apiResponse of
        None \<Rightarrow> Inl TypeError
      | Some r \<Rightarrow>
          (case raw_data r of
             None \<Rightarrow> Inr []
           | Some d \<Rightarrow>
               (case raw_NextService d of
                  RawAbsent \<Rightarrow> Inr []
                | RawOne _ \<Rightarrow> Inr []
                | RawMany services \<Rightarrow> raw_serviceMap Date_parse clock 0 services)))"

record RawEtaDirection =
  raw_title :: "jsstring option"
  raw_prediction :: "EtaBusJson raw_one_or_many"

record RawEtaPredictions =
  raw_routeTag :: "jsstring option"
  raw_direction :: "RawEtaDirection raw_one_or_many"

record RawEtaPredictionJson =
  raw_predictions :: "RawEtaPredictions raw_one_or_many"

fun raw_etaLoop ::
  "RawEtaPredictions \<Rightarrow> RawEtaDirection \<Rightarrow> EtaBusJson option list \<Rightarrow> ArrivalPrediction list \<Rightarrow>
     js_error + ArrivalPrediction list" where
  "raw_etaLoop pred dir [] acc = Inr acc"
| "raw_etaLoop pred dir (None # etas) acc = Inl TypeError"
| "raw_etaLoop pred dir (Some eta # etas) acc =
     raw_etaLoop pred dir etas (acc @ [ttcRecord (raw_routeTag pred) (raw_title dir) eta])"

fun raw_directionLoop ::
  "RawEtaPredictions \<Rightarrow> RawEtaDirection option list \<Rightarrow> ArrivalPrediction list \<Rightarrow>
     js_error + ArrivalPrediction list" where
  "raw_directionLoop pred [] acc = Inr acc"
| "raw_directionLoop pred (None # directions) acc = Inl TypeError"
| "raw_directionLoop pred (Some dir # directions) acc =
     (case raw_prediction dir of
        RawAbsent \<Rightarrow> raw_directionLoop pred directions acc
      | RawOne eta \<Rightarrow>
          (case raw_etaLoop pred dir [Some eta] acc of
             Inl e \<Rightarrow> Inl e
           | Inr acc' \<Rightarrow> raw_directionLoop pred directions acc')
      | RawMany etas \<Rightarrow>
          (case raw_etaLoop pred dir etas acc of
             Inl e \<Rightarrow> Inl e
           | Inr acc' \<Rightarrow> raw_directionLoop pred directions acc'))"

fun raw_predictionLoop ::
  "RawEtaPredictions option list \<Rightarrow> ArrivalPrediction list \<Rightarrow> js_error + ArrivalPrediction list" where
  "raw_predictionLoop [] acc = Inr acc"
| "raw_predictionLoop (None # predictionsArray) acc = Inl TypeError"
| "raw_predictionLoop (Some pred # predictionsArray) acc =
     (case raw_direction pred of
        RawAbsent \<Rightarrow> raw_predictionLoop predictionsArray acc
      | RawOne dir \<Rightarrow>
          (case raw_directionLoop pred [Some dir] acc of
             Inl e \<Rightarrow> Inl e
           | Inr acc' \<Rightarrow> raw_predictionLoop predictionsArray acc')
      | RawMany directions \<Rightarrow>
          (case raw_directionLoop pred directions acc of
             Inl e \<Rightarrow> Inl e
           | Inr acc' \<Rightarrow> raw_predictionLoop predictionsArray acc'))"

definition raw_normalizeTtc :: "RawEtaPredictionJson option \<Rightarrow> js_error + ArrivalPrediction list" where
  "raw_normalizeTtc json =
     (case json of
        None \<Rightarrow> Inl TypeError
      | Some j \<Rightarrow>
          (case raw_predictions j of
             RawAbsent \<Rightarrow> Inr []
           | RawOne pred \<Rightarrow> raw_predictionLoop [Some pred] []
           | RawMany predictionsArray \<Rightarrow> raw_predictionLoop predictionsArray []))"

fun raw_subwayLoop ::
  "(real \<Rightarrow> jsstring) \<Rightarrow> SubwayItem option list \<Rightarrow> ArrivalPrediction list \<Rightarrow>
     js_error + ArrivalPrediction list" where
  "raw_subwayLoop Number_toString [] acc = Inr acc"
| "raw_subwayLoop Number_toString (None # response) acc = Inl TypeError"
| "raw_subwayLoop Number_toString (Some item # response) acc =
     (case nextTrains item of
        None \<Rightarrow> raw_subwayLoop Number_toString response acc
      | Some s \<Rightarrow>
          if s = [] then raw_subwayLoop Number_toString response acc
          else raw_subwayLoop Number_toString response
                 (timesLoop Number_toString item (parseTimes s) acc))"

definition raw_normalizeTtcSubway ::
  "(real \<Rightarrow> jsstring) \<Rightarrow> SubwayItem option list option \<Rightarrow> js_error + ArrivalPrediction list" where
  "raw_normalizeTtcSubway Number_toString response =
     (case response of
        None \<Rightarrow> Inl TypeError
      | Some items \<Rightarrow> raw_subwayLoop Number_toString items [])"

text \<open>
  A payload of the declared type, seen as one of these: no entry of it is \<open>null\<close>.
\<close>

fun rawOf :: "('a \<Rightarrow> 'b) \<Rightarrow> 'a one_or_many \<Rightarrow> 'b raw_one_or_many" where
  "rawOf f Absent = RawAbsent"
| "rawOf f (One x) = RawOne (f x)"
| "rawOf f (Many xs) = RawMany (map (\<lambda>x. Some (f x)) xs)"

definition rawGo :: "GoResponse \<Rightarrow> RawGoResponse" where
  "rawGo r =
     \<lparr> raw_agency = resp_agency r, raw_stopCode = resp_stopCode r,
       raw_data = map_option (\<lambda>d. \<lparr> raw_NextService = rawOf (\<lambda>s. s) (NextService d),
                                    raw_StopCode = StopCode d \<rparr>) (data r) \<rparr>"

definition rawDirection :: "EtaDirection \<Rightarrow> RawEtaDirection" where
  "rawDirection dir = \<lparr> raw_title = title dir, raw_prediction = rawOf (\<lambda>eta. eta) (prediction dir) \<rparr>"

definition rawPredictions :: "EtaPredictions \<Rightarrow> RawEtaPredictions" where
  "rawPredictions pred =
     \<lparr> raw_routeTag = routeTag pred, raw_direction = rawOf rawDirection (direction pred) \<rparr>"

definition rawTtc :: "EtaPredictionJson \<Rightarrow> RawEtaPredictionJson" where
  "rawTtc json = \<lparr> raw_predictions = rawOf rawPredictions (predictions json) \<rparr>"

text \<open>Whether an array the TTC adapter iterates holds \<open>null\<close>.\<close>

fun nullIn :: "('a \<Rightarrow> bool) \<Rightarrow> 'a raw_one_or_many \<Rightarrow> bool" where
  "nullIn inner RawAbsent = False"
| "nullIn inner (RawOne x) = inner x"
| "nullIn inner (RawMany xs) = list_ex (\<lambda>x. case x of None \<Rightarrow> True | Some y \<Rightarrow> inner y) xs"

definition ttcNull :: "RawEtaPredictionJson \<Rightarrow> bool" where
  "ttcNull j =
     nullIn (\<lambda>pred. nullIn (\<lambda>dir. nullIn (\<lambda>eta. False) (raw_prediction dir)) (raw_direction pred))
       (raw_predictions j)"


section \<open>Stop store (GTA stops database)\<close>

text \<open>
  The object store \<open>stops\<close> is the list of its records in key order (the key path is
  \<open>id\<close>, keys compare as strings); each operation is one transaction and runs to
  completion, and the shared connection is taken as open. The fields of a stop carry the
  prefix \<open>stop_\<close> in \<open>TransitStop\<close>, \<open>db_\<close> in a stored record and \<open>r_\<close> in a query
  result.
\<close>

datatype AgencyID = ttc | go | yrt | miway | brampton

record TransitStop =
  stop_id :: jsstring
  stop_code :: jsstring
  stop_agency :: AgencyID
  stop_name :: jsstring
  stop_lat :: real
  stop_lon :: real
  stop_distance :: "real option"

record StopValue =
  db_id :: jsstring
  db_code :: jsstring
  db_agency :: AgencyID
  db_name :: jsstring
  db_lat :: real
  db_lon :: real
  db_tag :: "jsstring option"
  db_stopId :: "jsstring option"
  db_title :: "jsstring option"
  db_lines :: "jsstring list option"
  db_directions :: "jsstring option"
  db_type :: "jsstring option"

record StopWithDistance =
  r_id :: jsstring
  r_code :: jsstring
  r_agency :: AgencyID
  r_name :: jsstring
  r_lat :: real
  r_lon :: real
  distance :: real
  realDistance :: real
  r_title :: jsstring
  r_lines :: "jsstring list"
  r_directions :: jsstring
  r_type :: "jsstring option"

type_synonym store = "StopValue list"

datatype store_error = DataError

text \<open>The store's invariant: one record per key, in increasing key order.\<close>

definition wf_store :: "store \<Rightarrow> bool" where
  "wf_store db = sorted_wrt (<) (map db_id db)"

text \<open>\<open>store.put(value)\<close>: insert, or replace the record that has the same key.\<close>

fun put :: "StopValue \<Rightarrow> store \<Rightarrow> store" where
  "put v [] = [v]"
| "put v (x # xs) =
     (if db_id v = db_id x then v # xs
      else if db_id v < db_id x then v # x # xs
      else x # put v xs)"

text \<open>Deleting the record under a cursor removes the record stored under its primary key.\<close>

definition delete :: "jsstring \<Rightarrow> store \<Rightarrow> store" where
  "delete key db = filter (\<lambda>s. db_id s \<noteq> key) db"

text \<open>
  Cursors over the secondary indexes: the records whose index key lies in the key range,
  by index key and then by primary key.
\<close>

definition agencyIndex :: "AgencyID \<Rightarrow> store \<Rightarrow> StopValue list" where
  "agencyIndex agency db = filter (\<lambda>s. db_agency s = agency) db"

definition latIndex :: "real \<Rightarrow> real \<Rightarrow> store \<Rightarrow> StopValue list" where
  "latIndex lower upper db =
     sort_key db_lat (filter (\<lambda>s. lower \<le> db_lat s \<and> db_lat s \<le> upper) db)"

text \<open>The object \<open>saveStops\<close> hands to \<open>store.put\<close>: six fields, no legacy field.\<close>

definition storedValue :: "TransitStop \<Rightarrow> StopValue" where
  "storedValue stop =
     \<lparr> db_id = stop_id stop, db_code = stop_code stop, db_agency = stop_agency stop,
       db_name = stop_name stop, db_lat = stop_lat stop, db_lon = stop_lon stop,
       db_tag = None, db_stopId = None, db_title = None, db_lines = None,
       db_directions = None, db_type = None \<rparr>"

fun saveStops :: "TransitStop list \<Rightarrow> store \<Rightarrow> store" where
  "saveStops [] db = db"
| "saveStops (stop # stops) db = saveStops stops (put (storedValue stop) db)"

fun deleteLoop :: "StopValue list \<Rightarrow> store \<Rightarrow> store" where
  "deleteLoop [] db = db"
| "deleteLoop (stop # cursor) db = deleteLoop cursor (delete (db_id stop) db)"

definition clearAgency :: "AgencyID \<Rightarrow> store \<Rightarrow> store" where
  "clearAgency agency db = deleteLoop (agencyIndex agency db) db"

text \<open>
  The planar distance as the query computes it:
  \<open>Math.sqrt((stop.lat - lat) ** 2 + (stop.lon - lon) ** 2)\<close>, every operation in
  double arithmetic.
\<close>

definition planarDistance :: "Math \<Rightarrow> real \<Rightarrow> real \<Rightarrow> real \<Rightarrow> real \<Rightarrow> real" where
  "planarDistance M stop_lat' stop_lon' lat lon =
     Math_sqrt M (Number_add (exponentiate M (Number_subtract stop_lat' lat) 2)
                             (exponentiate M (Number_subtract stop_lon' lon) 2))"

text \<open>
  The body of the range query's loop: the record pushed for the stop under the cursor, if
  any. \<open>distanceOfTwoCoordinates\<close> (components/nearby/coordinate-utils) is not among the
  sources and is a parameter; \<open>rng\<close> is the source's \<open>range\<close>.
\<close>

definition rangeStep ::
  "(real \<times> real \<Rightarrow> StopValue \<Rightarrow> real) \<Rightarrow> Math \<Rightarrow> real \<Rightarrow> real \<Rightarrow> real \<Rightarrow> real \<Rightarrow> real \<Rightarrow>
     AgencyID option \<Rightarrow> StopValue \<Rightarrow> StopWithDistance option" where
  "rangeStep distanceOfTwoCoordinates M lat lon rng lowerLon upperLon agencyFilter stop =
     (if lowerLon \<le> db_lon stop \<and> db_lon stop \<le> upperLon then
        if agencyFilter = None \<or> Some (db_agency stop) = agencyFilter then
          (let distance = planarDistance M (db_lat stop) (db_lon stop) lat lon;
               realDistance = distanceOfTwoCoordinates (lat, lon) stop
           in if distance \<le> rng then
                Some \<lparr> r_id = db_id stop, r_code = db_code stop, r_agency = db_agency stop,
                       r_name = db_name stop, r_lat = db_lat stop, r_lon = db_lon stop,
                       distance = distance, realDistance = realDistance,
                       r_title = orString (db_title stop) (db_name stop),
                       r_lines = (case db_lines stop of None \<Rightarrow> [] | Some ls \<Rightarrow> ls),
                       r_directions = orString (db_directions stop) [],
                       r_type = db_type stop \<rparr>
              else None)
        else None
      else None)"

fun cursorLoop ::
  "(StopValue \<Rightarrow> StopWithDistance option) \<Rightarrow> StopValue list \<Rightarrow> StopWithDistance list \<Rightarrow>
     StopWithDistance list" where
  "cursorLoop body [] results = results"
| "cursorLoop body (stop # cursor) results =
     (case body stop of
        None \<Rightarrow> cursorLoop body cursor results
      | Some r \<Rightarrow> cursorLoop body cursor (results @ [r]))"

text \<open>
  \<open>IDBKeyRange.bound\<close> raises \<open>DataError\<close> when the lower bound exceeds the upper one.
  The comparator of the final sort is the difference of two \<open>realDistance\<close> values, and
  the difference of two doubles has the sign of their exact difference: the sort orders by
  \<open>realDistance\<close>. \<open>Array.prototype.sort\<close> is stable.
\<close>

definition getStopsWithinRange ::
  "(real \<times> real \<Rightarrow> StopValue \<Rightarrow> real) \<Rightarrow> Math \<Rightarrow> store \<Rightarrow> real \<Rightarrow> real \<Rightarrow> real \<Rightarrow>
     AgencyID option \<Rightarrow> store_error + StopWithDistance list" where
  "getStopsWithinRange distanceOfTwoCoordinates M db lat lon rng agencyFilter =
     (let lowerLat = Number_subtract lat rng;
          upperLat = Number_add lat rng;
          lowerLon = Number_subtract lon rng;
          upperLon = Number_add lon rng
      in if upperLat < lowerLat then Inl DataError
         else Inr (sort_key realDistance
                (cursorLoop
                   (rangeStep distanceOfTwoCoordinates M lat lon rng lowerLon upperLon agencyFilter)
                   (latIndex lowerLat upperLat db) [])))"

definition getStop :: "jsstring \<Rightarrow> store \<Rightarrow> StopWithDistance option" where
  "getStop key db =
     (case find (\<lambda>s. db_id s = key) db of
        None \<Rightarrow> None
      | Some stop \<Rightarrow>
          Some \<lparr> r_id = db_id stop, r_code = db_code stop, r_agency = db_agency stop,
                 r_name = db_name stop, r_lat = db_lat stop, r_lon = db_lon stop,
                 distance = 0, realDistance = 0,
                 r_title = orString (db_title stop) (db_name stop),
                 r_lines = (case db_lines stop of None \<Rightarrow> [] | Some ls \<Rightarrow> ls),
                 r_directions = orString (db_directions stop) [],
                 r_type = db_type stop \<rparr>)"

definition getAgencyCount :: "AgencyID \<Rightarrow> store \<Rightarrow> nat" where
  "getAgencyCount agency db = length (agencyIndex agency db)"


section \<open>Views of the inputs used in the statements\<close>

text \<open>
  The elements a one-or-many field contributes to a loop: none when it is absent.
\<close>

fun asList :: "'a one_or_many \<Rightarrow> 'a list" where
  "asList Absent = []"
| "asList (One x) = [x]"
| "asList (Many xs) = xs"

text \<open>
  The service entries the GO adapter converts: the list under \<open>NextService\<close>, or none
  when the envelope has no data or the field is not an array.
\<close>

definition goServices :: "GoResponse \<Rightarrow> GoTransitService list" where
  "goServices apiResponse =
     (case data apiResponse of None \<Rightarrow> [] | Some d \<Rightarrow>
        (case NextService d of Many services \<Rightarrow> services | _ \<Rightarrow> []))"

text \<open>
  The timestamp the GO callback selects for an entry, \<open>departureTime.getTime()\<close>: the
  bindings \<open>scheduledTime\<close>, \<open>computedTime\<close> and \<open>departureTime\<close> of the callback.
\<close>

definition departureTime :: "(jsstring \<Rightarrow> int option) \<Rightarrow> GoTransitService \<Rightarrow> int option" where
  "departureTime Date_parse service =
     (let scheduledTime = Date_parse (ScheduledDepartureTime service);
          computedTime = (case ComputedDepartureTime service of
                            None \<Rightarrow> scheduledTime
                          | Some c \<Rightarrow> if c \<noteq> [] then Date_parse c else scheduledTime)
      in if Computed service = 1 then computedTime else scheduledTime)"

text \<open>
  What one direction, and one prediction with all its directions, contribute to the result
  of the TTC adapter.
\<close>

definition directionPredictions :: "EtaPredictions \<Rightarrow> EtaDirection \<Rightarrow> ArrivalPrediction list" where
  "directionPredictions pred dir = map (ttcPrediction pred dir) (asList (prediction dir))"

definition predPredictions :: "EtaPredictions \<Rightarrow> ArrivalPrediction list" where
  "predPredictions pred = concat (map (directionPredictions pred) (asList (direction pred)))"

text \<open>
  \<open>x >= 0\<close> and \<open>x < 0\<close> on a JavaScript number: both false for \<open>NaN\<close>.
\<close>

definition nonNegative :: "number \<Rightarrow> bool" where
  "nonNegative x = (case x of NaN \<Rightarrow> False | Num n \<Rightarrow> 0 \<le> n | PosInfinity \<Rightarrow> True | NegInfinity \<Rightarrow> False)"

definition negative :: "number \<Rightarrow> bool" where
  "negative x = (case x of NaN \<Rightarrow> False | Num n \<Rightarrow> n < 0 | PosInfinity \<Rightarrow> False | NegInfinity \<Rightarrow> True)"


section \<open>Sample data\<close>

text \<open>
  A date parser for the examples: three timestamps, in milliseconds from the instant the
  examples take as time zero (12:00:00); every other string is an invalid date.
\<close>

definition sampleDates :: "jsstring \<Rightarrow> int option" where
  "sampleDates s =
     map_of [(str ''2024-05-01T12:05:00'', 300000), (str ''2024-05-01T12:07:20'', 440000),
             (str ''2024-05-01T11:58:00'', - 120000)] s"

definition sampleService :: GoTransitService where
  "sampleService =
     \<lparr> LineCode = str ''LW'', LineName = Some (str ''Lakeshore West''),
       DirectionName = str ''Union Station'',
       ScheduledDepartureTime = str ''2024-05-01T12:05:00'',
       ComputedDepartureTime = Some (str ''2024-05-01T12:07:20''),
       ScheduledPlatform = Some (str ''4''), ActualPlatform = None, Carrier = str ''GO'',
       BusNumber = None, TrainNumber = Some (str ''1023''), DelaySeconds = 140, Computed = 1 \<rparr>"

definition sampleGo :: "GoTransitService list \<Rightarrow> GoResponse" where
  "sampleGo services =
     \<lparr> resp_agency = str ''go'', resp_stopCode = str ''UN'',
       data = Some \<lparr> NextService = Many services, StopCode = Some (str ''UN'') \<rparr> \<rparr>"

definition sampleTtc :: "jsstring option \<Rightarrow> jsstring option \<Rightarrow> jsstring list \<Rightarrow> EtaPredictionJson" where
  "sampleTtc directionTitle tag ms =
     \<lparr> predictions = One \<lparr> routeTag = tag,
         direction = One \<lparr> title = directionTitle,
           prediction = Many (map (\<lambda>m. \<lparr> minutes = m, vehicle = Some (str ''4402'') \<rparr>) ms) \<rparr> \<rparr> \<rparr>"

text \<open>Decimal digits of a natural number, the rendering of the whole numbers of the examples.\<close>

fun decimal :: "nat \<Rightarrow> jsstring" where
  "decimal n = (if n < 10 then [0x30 + n] else decimal (n div 10) @ [0x30 + n mod 10])"

declare decimal.simps [simp del]

definition sampleToString :: "real \<Rightarrow> jsstring" where
  "sampleToString x = decimal (nat \<lfloor>x\<rfloor>)"

definition sampleSubway :: "jsstring \<Rightarrow> SubwayItem" where
  "sampleSubway s =
     \<lparr> nextTrains = Some s, directionText = Some (str ''Northbound''), item_line = Some 1 \<rparr>"

definition sampleStop ::
  "jsstring \<Rightarrow> jsstring \<Rightarrow> AgencyID \<Rightarrow> jsstring \<Rightarrow> real \<Rightarrow> real \<Rightarrow> TransitStop" where
  "sampleStop key c ag nm la lo =
     \<lparr> stop_id = key, stop_code = c, stop_agency = ag, stop_name = nm,
       stop_lat = la, stop_lon = lo, stop_distance = None \<rparr>"

definition sampleStops :: "TransitStop list" where
  "sampleStops =
     [sampleStop (str ''TTC_456'') (str ''456'') ttc (str ''King St W at Spadina Ave'') 43.648 (- 79.384),
      sampleStop (str ''GO_UN'') (str ''UN'') go (str ''Union Station'') 43.645 (- 79.380),
      sampleStop (str ''TTC_900'') (str ''900'') ttc (str ''Queen St W at Bay St'') 43.653 (- 79.372),
      sampleStop (str ''YRT_12'') (str ''12'') yrt (str ''Richmond Hill Centre'') 43.840 (- 79.425)]"

text \<open>
  Stops on whole degrees, for the examples of the range query: around the first one, the
  second is 3 away, the third 3 and 4 away along the two axes (so 5 away), the fourth 8.
\<close>

definition gridStops :: "TransitStop list" where
  "gridStops =
     [sampleStop (str ''GO_UN'') (str ''UN'') go (str ''Union Station'') 44 (- 79),
      sampleStop (str ''TTC_456'') (str ''456'') ttc (str ''King St W at Spadina Ave'') 47 (- 79),
      sampleStop (str ''TTC_900'') (str ''900'') ttc (str ''Queen St W at Bay St'') 47 (- 75),
      sampleStop (str ''YRT_12'') (str ''12'') yrt (str ''Richmond Hill Centre'') 52 (- 79)]"

text \<open>
  A stand-in for the great-circle distance in the examples: a city-block distance in
  metres.
\<close>

definition sampleDistance :: "real \<times> real \<Rightarrow> StopValue \<Rightarrow> real" where
  "sampleDistance p s = 111000 * (\<bar>db_lat s - fst p\<bar> + \<bar>db_lon s - snd p\<bar>)"

text \<open>
  A platform whose square root and power are correctly rounded; the exponent is a whole
  number. For the arguments of the examples the results are exact.
\<close>

definition roundedMath :: Math where
  "roundedMath =
     \<lparr> Math_sqrt = (\<lambda>x. roundToDouble (sqrt x)),
       exponentiate = (\<lambda>x y. roundToDouble (x ^ nat \<lfloor>y\<rfloor>)) \<rparr>"


section \<open>Properties of the built-ins\<close>

lemma str_eq_Nil [simp]: "str s = [] \<longleftrightarrow> s = []"
  by (simp add: str_def)

text \<open>
  On a difference of millisecond timestamps \<open>Math.round\<close> of the minutes is an integer
  division; in general it is a nearest integer, and it is monotone.
\<close>

lemma Math_round_minutes: "Math_round (real_of_int d / 60000) = (d + 30000) div 60000"
proof -
  have "real_of_int d / 60000 + 1 / 2 = real_of_int (d + 30000) / real_of_int 60000"
    by (simp add: field_simps)
  then show ?thesis
    unfolding Math_round_def by (simp only: floor_divide_of_int_eq)
qed

lemma Math_round_nearest: "\<bar>x - real_of_int (Math_round x)\<bar> \<le> 1 / 2"
  unfolding Math_round_def by linarith


text \<open>
  The Number value of an integer: the integer itself below \<open>2^53\<close>, never \<open>NaN\<close>, and of
  the integer's sign.
\<close>

lemma bitLength_le: "n < 2 ^ k \<Longrightarrow> bitLength n \<le> k"
proof (induction n arbitrary: k rule: bitLength.induct)
  case (1 n)
  show ?case
  proof (cases "n = 0")
    case True
    then show ?thesis by (simp add: bitLength.simps)
  next
    case False
    with "1.prems" obtain j where k: "k = Suc j"
      by (cases k) auto
    with "1.prems" have "n div 2 < 2 ^ j" by auto
    with "1.IH" [OF False] have "bitLength (n div 2) \<le> j" .
    with False k show ?thesis by (simp add: bitLength.simps [of n])
  qed
qed

lemma bitLength_lower: "0 < n \<Longrightarrow> 2 ^ (bitLength n - 1) \<le> n"
proof (induction n rule: bitLength.induct)
  case (1 n)
  then have n: "n \<noteq> 0" by simp
  show ?case
  proof (cases "n div 2 = 0")
    case True
    with n show ?thesis by (simp add: bitLength.simps [of n] bitLength.simps [of 0])
  next
    case False
    with "1.IH" [OF n] have ih: "2 ^ (bitLength (n div 2) - 1) \<le> n div 2" by simp
    from False have "bitLength (n div 2) \<noteq> 0" by (simp add: bitLength.simps [of "n div 2"])
    then obtain j where j: "bitLength (n div 2) = Suc j"
      by (cases "bitLength (n div 2)") auto
    with ih have "2 * 2 ^ j \<le> 2 * (n div 2)" by simp
    also have "\<dots> \<le> n" by simp
    finally show ?thesis using n j by (simp add: bitLength.simps [of n])
  qed
qed

lemma bitLength_upper: "n < 2 ^ bitLength n"
proof (induction n rule: bitLength.induct)
  case (1 n)
  show ?case
  proof (cases "n = 0")
    case True
    then show ?thesis by simp
  next
    case False
    with "1.IH" have "n div 2 < 2 ^ bitLength (n div 2)" by simp
    then have "n < 2 * 2 ^ bitLength (n div 2)" by linarith
    with False show ?thesis by (simp add: bitLength.simps [of n])
  qed
qed

lemma roundHalfEven_one: "roundHalfEven a 1 = a"
  by (simp add: roundHalfEven_def)

lemma roundHalfEven_nonneg: "0 \<le> a \<Longrightarrow> 0 < q \<Longrightarrow> 0 \<le> roundHalfEven a q"
  by (simp add: roundHalfEven_def Let_def pos_imp_zdiv_nonneg_iff)

lemma roundHalfEven_pos: "0 < q \<Longrightarrow> q \<le> a \<Longrightarrow> 0 < roundHalfEven a q"
proof -
  assume q: "0 < q" and a: "q \<le> a"
  then have "0 < a div q" by (simp add: pos_imp_zdiv_pos_iff)
  then show ?thesis by (simp add: roundHalfEven_def Let_def)
qed

lemma toNumber_small: "\<bar>n\<bar> < 2 ^ 53 \<Longrightarrow> toNumber n = Num n"
proof -
  assume small: "\<bar>n\<bar> < 2 ^ 53"
  then have "nat \<bar>n\<bar> < 2 ^ 53" by (simp add: nat_less_iff)
  then have "bitLength (nat \<bar>n\<bar>) - 53 = 0"
    using bitLength_le [of "nat \<bar>n\<bar>" 53] by simp
  moreover have "\<not> (2::int) ^ 1024 \<le> \<bar>n\<bar>" using small by simp
  moreover have "sgn n * \<bar>n\<bar> = n" by (simp add: mult_sgn_abs)
  ultimately show ?thesis
    by (simp add: toNumber_def Let_def roundHalfEven_one)
qed

lemma toNumber_not_NaN: "toNumber n \<noteq> NaN"
  by (simp add: toNumber_def Let_def)

lemma toNumber_rounded_pos:
  assumes "n \<noteq> 0"
  shows "0 < roundHalfEven \<bar>n\<bar> (2 ^ (bitLength (nat \<bar>n\<bar>) - 53)) * 2 ^ (bitLength (nat \<bar>n\<bar>) - 53)"
proof -
  let ?b = "bitLength (nat \<bar>n\<bar>)"
  have pos: "0 < nat \<bar>n\<bar>" using assms by simp
  have "(2::nat) ^ (?b - 53) \<le> 2 ^ (?b - 1)"
    by (intro power_increasing) simp_all
  also have "\<dots> \<le> nat \<bar>n\<bar>" using bitLength_lower [OF pos] .
  finally have "int (2 ^ (?b - 53)) \<le> int (nat \<bar>n\<bar>)" by (simp only: of_nat_le_iff)
  then have "(2::int) ^ (?b - 53) \<le> \<bar>n\<bar>" by simp
  then have "0 < roundHalfEven \<bar>n\<bar> (2 ^ (?b - 53))"
    by (intro roundHalfEven_pos) simp_all
  then show ?thesis by simp
qed

lemma toNumber_cases:
  "toNumber n =
     (if 2 ^ 1024 \<le> roundHalfEven \<bar>n\<bar> (2 ^ (bitLength (nat \<bar>n\<bar>) - 53)) * 2 ^ (bitLength (nat \<bar>n\<bar>) - 53)
      then (if n < 0 then NegInfinity else PosInfinity)
      else Num (sgn n * (roundHalfEven \<bar>n\<bar> (2 ^ (bitLength (nat \<bar>n\<bar>) - 53))
                          * 2 ^ (bitLength (nat \<bar>n\<bar>) - 53))))"
  unfolding toNumber_def Let_def ..

lemma negative_toNumber: "negative (toNumber n) = (n < 0)"
proof (cases "n = 0")
  case True
  then show ?thesis by (simp add: toNumber_small negative_def)
next
  case False
  have aux: "negative (if c then (if n < 0 then NegInfinity else PosInfinity) else Num (sgn n * r))
      = (n < 0)" if "0 < r" for c r
    using that
    by (cases "n < 0"; cases "n = 0") (auto simp add: negative_def mult_less_0_iff zero_less_mult_iff)
  show ?thesis
    unfolding toNumber_cases by (rule aux) (rule toNumber_rounded_pos [OF False])
qed

lemma nonNegative_toNumber: "nonNegative (toNumber n) = (0 \<le> n)"
proof (cases "n = 0")
  case True
  then show ?thesis by (simp add: toNumber_small nonNegative_def)
next
  case False
  have aux: "nonNegative (if c then (if n < 0 then NegInfinity else PosInfinity) else Num (sgn n * r))
      = (0 \<le> n)" if "0 < r" for c r
    using that
    by (cases "n < 0"; cases "n = 0") (auto simp add: nonNegative_def mult_le_0_iff zero_le_mult_iff)
  show ?thesis
    unfolding toNumber_cases by (rule aux) (rule toNumber_rounded_pos [OF False])
qed

lemma nonNegative_iff_not_negative: "x \<noteq> NaN \<Longrightarrow> nonNegative x = (\<not> negative x)"
  by (cases x) (auto simp add: nonNegative_def negative_def)

lemma toNumber_examples:
  "toNumber 9007199254740993 = Num 9007199254740992"
  "toNumber (- 9007199254740995) = Num (- 9007199254740996)"
proof -
  have b: "bitLength 9007199254740993 = 54" "bitLength 9007199254740995 = 54"
    by (simp_all add: bitLength.simps)
  show "toNumber 9007199254740993 = Num 9007199254740992"
    "toNumber (- 9007199254740995) = Num (- 9007199254740996)"
    unfolding toNumber_def by (simp_all add: b roundHalfEven_def)
qed

text \<open>
  \<open>parseInt\<close> gives \<open>NaN\<close> exactly when no digit follows the white space and the
  optional sign. The no-break space is white space.
\<close>

lemma parseInt_NaN_iff:
  "parseInt s = NaN \<longleftrightarrow>
     (case snd (stripSign (dropWhile isWhiteSpace s)) of [] \<Rightarrow> True | c # _ \<Rightarrow> \<not> isDigit c)"
  by (auto simp add: parseInt_def Let_def toNumber_not_NaN split: prod.splits list.splits)

lemma parseInt_examples:
  "parseInt (str ''3'') = Num 3" "parseInt (str ''4'') = Num 4" "parseInt (str ''7'') = Num 7" "parseInt (str ''12'') = Num 12"
  "parseInt (str ''x'') = NaN" "parseInt (str ''-3'') = Num (- 3)"
  "parseInt (str ''-5'') = Num (- 5)"
  "parseInt (str ''4 min'') = Num 4" "parseInt (0xA0 # str ''-5'') = Num (- 5)"
  "parseInt (str ''9007199254740993'') = Num 9007199254740992"
  by (simp_all add: parseInt_def str_def digitsValue_def digitValue_def isDigit_def
      isWhiteSpace_def isLineTerminator_def toNumber_small toNumber_examples)

lemma parseTimes_example:
  "parseTimes (str ''3, 7, x, 12'') = [Num 3, Num 7, NaN, Num 12]"
  by (simp add: parseTimes_def str_def split_def trim_def parseInt_def digitsValue_def
      digitValue_def isDigit_def isWhiteSpace_def isLineTerminator_def toNumber_small)

lemma parseTimes_no_break_space:
  "parseTimes (str ''3,'' @ 0xA0 # str ''7'') = [Num 3, Num 7]"
  by (simp add: parseTimes_def str_def split_def trim_def parseInt_def digitsValue_def
      digitValue_def isDigit_def isWhiteSpace_def isLineTerminator_def toNumber_small)

lemma orZero_cases: "orZero x = (case x of NaN \<Rightarrow> Num 0 | _ \<Rightarrow> x)"
  by (cases x) (simp_all add: orZero_def)

lemma nonNegative_orZero: "nonNegative (orZero x) = (\<not> negative x)"
  by (cases x) (auto simp add: nonNegative_def negative_def orZero_def)

text \<open>
  The line pattern matches exactly the strings that start with a digit, and then yields
  the longest prefix of word characters: any number of letters, digits and underscores may
  follow the digits.
\<close>

lemma takeWhile_refine:
  "(\<And>x. P x \<Longrightarrow> Q x) \<Longrightarrow> takeWhile P xs @ takeWhile Q (dropWhile P xs) = takeWhile Q xs"
  by (induction xs) auto

lemma lineRegex_Some_iff:
  "lineRegex s = Some tok \<longleftrightarrow> (\<exists>c cs. s = c # cs \<and> isDigit c \<and> tok = takeWhile isWordChar s)"
proof -
  have refine: "takeWhile isDigit xs @ takeWhile isWordChar (dropWhile isDigit xs)
      = takeWhile isWordChar xs" for xs
    by (rule takeWhile_refine) (simp add: isWordChar_def)
  show ?thesis
    by (cases s) (auto simp add: lineRegex_def Let_def refine isWordChar_def)
qed

lemma lineRegex_None_iff: "lineRegex s = None \<longleftrightarrow> (s = [] \<or> \<not> isDigit (hd s))"
  by (cases s) (auto simp add: lineRegex_def Let_def)

lemma lineRegex_examples:
  "lineRegex (str ''504 - W King towards Distillery Loop'') = Some (str ''504'')"
  "lineRegex (str ''504AB_2 - W King'') = Some (str ''504AB_2'')"
  "lineRegex (str ''West - King'') = None"
  by (simp_all add: lineRegex_def str_def isDigit_def isWordChar_def)

lemma destRegex_examples:
  "destRegex (str ''504 - W King Towards Distillery Loop'') = Some (str ''Distillery Loop'')"
  "destRegex (str ''504 - W King'') = None"
  by (simp_all add: str_def toLower_def isLineTerminator_def)

text \<open>
  Rounding to a double: a real number with a 53-bit significand is a double, so every
  whole number below \<open>2^53\<close> is; and \<open>1 + 2^-60\<close> rounds to 1.
\<close>

lemma roundEven_of_int: "roundEven (of_int n) = n"
  by (simp add: roundEven_def)

lemma roundEven_near: "0 \<le> d \<Longrightarrow> d < 1 / 2 \<Longrightarrow> roundEven (of_int n + d) = n"
proof -
  assume d: "0 \<le> d" "d < 1 / 2"
  then have "\<lfloor>of_int n + d\<rfloor> = n" by linarith
  then show ?thesis using d by (simp add: roundEven_def Let_def)
qed

lemma roundToDouble_binade:
  assumes "2 powr of_int k \<le> \<bar>x\<bar>" and "\<bar>x\<bar> < 2 powr of_int (k + 1)"
  shows "roundToDouble x = of_int (roundEven (x / 2 powr of_int (k - 52))) * 2 powr of_int (k - 52)"
proof -
  have pos: "0 < \<bar>x\<bar>" using assms(1) by (smt (verit) powr_gt_zero)
  have "\<lfloor>log 2 \<bar>x\<bar>\<rfloor> = k"
    using assms pos by (simp add: floor_log_eq_powr_iff)
  with pos show ?thesis by (simp add: roundToDouble_def Let_def)
qed

lemma roundToDouble_exact:
  assumes "x = of_int m * 2 powr of_int e" and "2 ^ 52 \<le> \<bar>m\<bar>" and "\<bar>m\<bar> < 2 ^ 53"
  shows "roundToDouble x = x"
proof -
  have p: "(0::real) < 2 powr of_int e" by simp
  have ax: "\<bar>x\<bar> = of_int \<bar>m\<bar> * 2 powr of_int e"
    by (simp add: assms(1) abs_mult)
  have lo: "2 powr of_int (e + 52) \<le> \<bar>x\<bar>"
  proof -
    have "(2::real) ^ 52 \<le> of_int \<bar>m\<bar>"
      using assms(2) by (metis of_int_le_iff of_int_numeral of_int_power)
    then have "(2::real) ^ 52 * 2 powr of_int e \<le> of_int \<bar>m\<bar> * 2 powr of_int e"
      using p by (simp only: mult_le_cancel_right_pos)
    moreover have "(2::real) powr of_int (e + 52) = 2 ^ 52 * 2 powr of_int e"
      by (simp add: powr_add)
    ultimately show ?thesis by (simp only: ax)
  qed
  have hi: "\<bar>x\<bar> < 2 powr of_int ((e + 52) + 1)"
  proof -
    have "of_int \<bar>m\<bar> < (2::real) ^ 53"
      using assms(3) by (metis of_int_less_iff of_int_numeral of_int_power)
    then have "of_int \<bar>m\<bar> * 2 powr of_int e < (2::real) ^ 53 * 2 powr of_int e"
      using p by (simp only: mult_less_cancel_right_pos)
    moreover have "(2::real) powr of_int ((e + 52) + 1) = 2 ^ 53 * 2 powr of_int e"
      by (simp add: powr_add)
    ultimately show ?thesis by (simp only: ax)
  qed
  have "x / 2 powr of_int (e + 52 - 52) = of_int m"
    by (simp add: assms(1))
  then show ?thesis
    using roundToDouble_binade [OF lo hi] by (simp add: roundEven_of_int assms(1))
qed

lemma roundToDouble_of_int:
  assumes "\<bar>n\<bar> < 2 ^ 53"
  shows "roundToDouble (of_int n) = of_int n"
proof (cases "n = 0")
  case True
  then show ?thesis by (simp add: roundToDouble_def)
next
  case False
  let ?a = "nat \<bar>n\<bar>"
  let ?b = "bitLength ?a"
  let ?k = "53 - ?b"
  have pos: "0 < ?a" using False by simp
  have "?a < 2 ^ 53" using assms by (simp add: nat_less_iff)
  then have b53: "?b \<le> 53" by (rule bitLength_le)
  have b1: "1 \<le> ?b" using pos by (simp add: bitLength.simps [of ?a])
  have "2 ^ (?b - 1) * 2 ^ ?k \<le> ?a * 2 ^ ?k"
    using bitLength_lower [OF pos] by (rule mult_le_mono1)
  moreover have "(2::nat) ^ (?b - 1) * 2 ^ ?k = 2 ^ 52"
    using b53 b1 by (simp add: power_add [symmetric])
  ultimately have "(2::nat) ^ 52 \<le> ?a * 2 ^ ?k" by (simp only:)
  then have "int (2 ^ 52) \<le> int (?a * 2 ^ ?k)" by (simp only: of_nat_le_iff)
  then have lo: "2 ^ 52 \<le> \<bar>n * 2 ^ ?k\<bar>" by (simp add: abs_mult)
  have "?a * 2 ^ ?k < 2 ^ ?b * 2 ^ ?k"
    using bitLength_upper [of ?a] by simp
  moreover have "(2::nat) ^ ?b * 2 ^ ?k = 2 ^ 53"
    using b53 by (simp add: power_add [symmetric])
  ultimately have "?a * 2 ^ ?k < 2 ^ 53" by (simp only:)
  then have "int (?a * 2 ^ ?k) < int (2 ^ 53)" by (simp only: of_nat_less_iff)
  then have hi: "\<bar>n * 2 ^ ?k\<bar> < 2 ^ 53" by (simp add: abs_mult)
  have "(2::real) powr of_int (- int ?k) = 1 / 2 ^ ?k"
    by (simp add: powr_minus_divide powr_realpow)
  then have "real_of_int n = of_int (n * 2 ^ ?k) * 2 powr of_int (- int ?k)"
    by simp
  then show ?thesis
    using lo hi by (rule roundToDouble_exact)
qed

lemma roundToDouble_numeral [simp]:
  "numeral w < (2::int) ^ 53 \<Longrightarrow> roundToDouble (numeral w) = numeral w"
  "numeral w < (2::int) ^ 53 \<Longrightarrow> roundToDouble (- numeral w) = - numeral w"
  "roundToDouble 0 = 0" "roundToDouble 1 = 1" "roundToDouble (- 1) = - 1"
  using roundToDouble_of_int [of "numeral w"] roundToDouble_of_int [of "- numeral w"]
    roundToDouble_of_int [of 0] roundToDouble_of_int [of 1] roundToDouble_of_int [of "- 1"]
  by simp_all

lemma roundToDouble_examples:
  "roundToDouble (1 / 2 ^ 30) = 1 / 2 ^ 30"
  "roundToDouble (1 / 2 ^ 60) = 1 / 2 ^ 60"
  "roundToDouble (1 + 1 / 2 ^ 60) = 1"
proof -
  show "roundToDouble (1 / 2 ^ 30) = 1 / 2 ^ 30"
    by (rule roundToDouble_exact [of _ "2 ^ 52" "- 82"]) (simp_all add: powr_minus_divide)
  show "roundToDouble (1 / 2 ^ 60) = 1 / 2 ^ 60"
    by (rule roundToDouble_exact [of _ "2 ^ 52" "- 112"]) (simp_all add: powr_minus_divide)
  have lo: "2 powr of_int 0 \<le> \<bar>1 + 1 / 2 ^ 60 :: real\<bar>" by simp
  have hi: "\<bar>1 + 1 / 2 ^ 60 :: real\<bar> < 2 powr of_int (0 + 1)" by simp
  have "(1 + 1 / 2 ^ 60) / 2 powr of_int (0 - 52) = of_int (2 ^ 52) + (1 / 2 ^ 8 :: real)"
    by (simp add: powr_minus_divide field_simps)
  moreover have "roundEven (of_int (2 ^ 52) + (1 / 2 ^ 8 :: real)) = 2 ^ 52"
    by (rule roundEven_near) simp_all
  ultimately show "roundToDouble (1 + 1 / 2 ^ 60) = 1"
    using roundToDouble_binade [OF lo hi] by (simp add: powr_minus_divide)
qed

text \<open>Rounding to a double is odd and monotone.\<close>

lemma roundEven_mono: "x \<le> y \<Longrightarrow> roundEven x \<le> roundEven y"
proof -
  assume xy: "x \<le> y"
  then have fl: "\<lfloor>x\<rfloor> \<le> \<lfloor>y\<rfloor>" by (rule floor_mono)
  have rx: "roundEven x \<le> \<lfloor>x\<rfloor> + 1" and ry: "\<lfloor>y\<rfloor> \<le> roundEven y"
    by (simp_all add: roundEven_def Let_def)
  show ?thesis
  proof (cases "\<lfloor>x\<rfloor> < \<lfloor>y\<rfloor>")
    case True
    with rx ry show ?thesis by linarith
  next
    case False
    with fl have eq: "\<lfloor>y\<rfloor> = \<lfloor>x\<rfloor>" by simp
    from xy have "x - of_int \<lfloor>x\<rfloor> \<le> y - of_int \<lfloor>x\<rfloor>" by simp
    then show ?thesis
      by (auto simp add: roundEven_def Let_def eq)
  qed
qed

lemma roundEven_minus: "roundEven (- x) = - roundEven x"
proof (cases "x = of_int \<lfloor>x\<rfloor>")
  case True
  then have "roundEven x = \<lfloor>x\<rfloor>" "roundEven (- x) = - \<lfloor>x\<rfloor>"
    using roundEven_of_int [of "\<lfloor>x\<rfloor>"] roundEven_of_int [of "- \<lfloor>x\<rfloor>"]
    by (metis, metis of_int_minus)
  then show ?thesis by simp
next
  case False
  then have lt: "of_int \<lfloor>x\<rfloor> < x" by linarith
  have "x < of_int \<lfloor>x\<rfloor> + 1" by linarith
  with lt have fm: "\<lfloor>- x\<rfloor> = - \<lfloor>x\<rfloor> - 1" by linarith
  show ?thesis
    using lt by (auto simp add: roundEven_def Let_def fm)
qed

lemma roundToDouble_minus: "roundToDouble (- x) = - roundToDouble x"
  by (simp add: roundToDouble_def Let_def roundEven_minus)

lemma roundToDouble_nonneg: "0 \<le> x \<Longrightarrow> 0 \<le> roundToDouble x"
proof -
  assume x: "0 \<le> x"
  then have "roundEven 0 \<le> roundEven (x / 2 powr of_int (\<lfloor>log 2 \<bar>x\<bar>\<rfloor> - 52))"
    by (intro roundEven_mono) simp
  then show ?thesis
    using roundEven_of_int [of 0] by (simp add: roundToDouble_def Let_def)
qed

lemma roundToDouble_bounds:
  assumes "0 < x"
  shows "2 powr of_int \<lfloor>log 2 x\<rfloor> \<le> roundToDouble x"
    and "roundToDouble x \<le> 2 powr of_int (\<lfloor>log 2 x\<rfloor> + 1)"
proof -
  let ?k = "\<lfloor>log 2 x\<rfloor>"
  let ?u = "2 powr of_int (?k - 52) :: real"
  have u: "0 < ?u" by simp
  have lo: "2 powr of_int ?k \<le> x" and hi: "x < 2 powr of_int (?k + 1)"
    using floor_log_eq_powr_iff [of x 2 ?k] assms by simp_all
  have fl: "roundToDouble x = of_int (roundEven (x / ?u)) * ?u"
    using assms by (simp add: roundToDouble_def Let_def)
  have "2 powr of_int ?k / ?u = (2::real) ^ 52"
    by (simp add: powr_diff [symmetric] powr_realpow [symmetric])
  then have k52: "2 powr of_int ?k = of_int (2 ^ 52) * ?u"
    using u by (simp add: field_simps)
  have "2 powr of_int (?k + 1) / ?u = (2::real) ^ 53"
    by (simp add: powr_diff [symmetric] powr_realpow [symmetric])
  then have k53: "2 powr of_int (?k + 1) = of_int (2 ^ 53) * ?u"
    using u by (simp add: field_simps)
  have "of_int (2 ^ 52) \<le> x / ?u"
    using lo u unfolding k52 by (simp add: pos_le_divide_eq)
  then have "roundEven (of_int (2 ^ 52)) \<le> roundEven (x / ?u)"
    by (rule roundEven_mono)
  then have "(2::int) ^ 52 \<le> roundEven (x / ?u)"
    by (simp only: roundEven_of_int)
  then have "of_int (2 ^ 52) * ?u \<le> of_int (roundEven (x / ?u)) * ?u"
    using u by (simp only: mult_le_cancel_right_pos of_int_le_iff)
  then show "2 powr of_int ?k \<le> roundToDouble x"
    by (simp only: fl k52)
  have "x / ?u \<le> of_int (2 ^ 53)"
    using hi u unfolding k53 by (simp add: pos_divide_le_eq)
  then have "roundEven (x / ?u) \<le> roundEven (of_int (2 ^ 53))"
    by (rule roundEven_mono)
  then have "roundEven (x / ?u) \<le> (2::int) ^ 53"
    by (simp only: roundEven_of_int)
  then have "of_int (roundEven (x / ?u)) * ?u \<le> of_int (2 ^ 53) * ?u"
    using u by (simp only: mult_le_cancel_right_pos of_int_le_iff)
  then show "roundToDouble x \<le> 2 powr of_int (?k + 1)"
    by (simp only: fl k53)
qed

lemma roundToDouble_mono_pos:
  assumes "0 < x" and "x \<le> y"
  shows "roundToDouble x \<le> roundToDouble y"
proof -
  have y: "0 < y" using assms by simp
  have k: "\<lfloor>log 2 x\<rfloor> \<le> \<lfloor>log 2 y\<rfloor>"
    using assms by (intro floor_mono) simp
  show ?thesis
  proof (cases "\<lfloor>log 2 x\<rfloor> = \<lfloor>log 2 y\<rfloor>")
    case True
    let ?u = "2 powr of_int (\<lfloor>log 2 y\<rfloor> - 52) :: real"
    have "x / ?u \<le> y / ?u"
      using assms(2) by (simp add: divide_right_mono)
    then have "roundEven (x / ?u) \<le> roundEven (y / ?u)"
      by (rule roundEven_mono)
    then have "of_int (roundEven (x / ?u)) * ?u \<le> of_int (roundEven (y / ?u)) * ?u"
      by (simp add: mult_right_mono)
    then show ?thesis
      using assms(1) y True by (simp add: roundToDouble_def Let_def)
  next
    case False
    with k have "\<lfloor>log 2 x\<rfloor> + 1 \<le> \<lfloor>log 2 y\<rfloor>" by simp
    then have "(2::real) powr of_int (\<lfloor>log 2 x\<rfloor> + 1) \<le> 2 powr of_int \<lfloor>log 2 y\<rfloor>"
      by simp
    with roundToDouble_bounds(2) [OF assms(1)] roundToDouble_bounds(1) [OF y]
    show ?thesis by linarith
  qed
qed

lemma roundToDouble_mono: "x \<le> y \<Longrightarrow> roundToDouble x \<le> roundToDouble y"
proof -
  assume xy: "x \<le> y"
  consider "0 < x" | "x \<le> 0" "0 \<le> y" | "y < 0" by linarith
  then show ?thesis
  proof cases
    case 1
    then show ?thesis using xy by (rule roundToDouble_mono_pos)
  next
    case 2
    have "0 \<le> roundToDouble (- x)" using 2(1) by (intro roundToDouble_nonneg) simp
    then have "roundToDouble x \<le> 0" by (simp add: roundToDouble_minus)
    moreover have "0 \<le> roundToDouble y" using 2(2) by (rule roundToDouble_nonneg)
    ultimately show ?thesis by simp
  next
    case 3
    then have "0 < - y" "- y \<le> - x" using xy by simp_all
    then have "roundToDouble (- y) \<le> roundToDouble (- x)" by (rule roundToDouble_mono_pos)
    then show ?thesis by (simp add: roundToDouble_minus)
  qed
qed

lemma range_bounds_ordered:
  "0 \<le> rng \<Longrightarrow> Number_subtract x rng \<le> Number_add x rng"
  unfolding Number_subtract_def Number_add_def by (intro roundToDouble_mono) simp


section \<open>The adapters' loops as list operations\<close>

subsection \<open>GO Transit\<close>

lemma normalizeGoTransit_services:
  "normalizeGoTransit Date_parse clock apiResponse =
     map (\<lambda>(i, service). goService Date_parse (clock i) service) (enumerate 0 (goServices apiResponse))"
  by (simp add: normalizeGoTransit_def goServices_def split: option.split one_or_many.split)

lemma length_normalizeGoTransit:
  "length (normalizeGoTransit Date_parse clock apiResponse) = length (goServices apiResponse)"
  by (simp add: normalizeGoTransit_services)

lemma normalizeGoTransit_nth:
  "i < length (goServices apiResponse) \<Longrightarrow>
     normalizeGoTransit Date_parse clock apiResponse ! i =
       goService Date_parse (clock i) (goServices apiResponse ! i)"
  by (simp add: normalizeGoTransit_services nth_enumerate_eq)

lemma goServices_Many:
  "data apiResponse = Some d \<Longrightarrow> NextService d = Many services \<Longrightarrow>
     goServices apiResponse = services"
  by (simp add: goServices_def)

lemma goService_isGhost: "isGhost (goService D now s) = (Computed s = 0)"
  by (simp add: goService_def Let_def)

lemma goService_minutes:
  "timeMinutes (goService D now s) =
     (case departureTime D s of
        None \<Rightarrow> NaN
      | Some t \<Rightarrow> Num (max 0 (Math_round (real_of_int (t - now) / 60000))))"
  by (simp add: goService_def departureTime_def Let_def)

lemma goService_minutes_scheduled:
  "Computed s \<noteq> 1 \<Longrightarrow>
     timeMinutes (goService D now s) =
       (case D (ScheduledDepartureTime s) of
          None \<Rightarrow> NaN
        | Some t \<Rightarrow> Num (max 0 (Math_round (real_of_int (t - now) / 60000))))"
  by (simp add: goService_def Let_def)

lemma goService_minutes_computed:
  "Computed s = 1 \<Longrightarrow> ComputedDepartureTime s = Some c \<Longrightarrow> c \<noteq> [] \<Longrightarrow>
     timeMinutes (goService D now s) =
       (case D c of
          None \<Rightarrow> NaN
        | Some t \<Rightarrow> Num (max 0 (Math_round (real_of_int (t - now) / 60000))))"
  by (simp add: goService_def Let_def)

lemma goService_minutes_fallback:
  "Computed s = 1 \<Longrightarrow> ComputedDepartureTime s = None \<or> ComputedDepartureTime s = Some [] \<Longrightarrow>
     timeMinutes (goService D now s) =
       (case D (ScheduledDepartureTime s) of
          None \<Rightarrow> NaN
        | Some t \<Rightarrow> Num (max 0 (Math_round (real_of_int (t - now) / 60000))))"
  by (auto simp add: goService_def Let_def)

lemma goService_not_negative: "timeMinutes (goService D now s) = Num m \<Longrightarrow> 0 \<le> m"
  by (auto simp add: goService_def Let_def split: option.splits if_splits)




subsection \<open>TTC\<close>

lemma etaLoop_acc: "etaLoop pred dir etas acc = acc @ map (ttcPrediction pred dir) etas"
  by (induction etas arbitrary: acc) simp_all

lemma directionLoop_acc:
  "directionLoop pred dirs acc = acc @ concat (map (directionPredictions pred) dirs)"
  by (induction dirs arbitrary: acc)
    (simp_all add: etaLoop_acc directionPredictions_def split: one_or_many.split)

lemma predictionLoop_acc:
  "predictionLoop preds acc = acc @ concat (map predPredictions preds)"
  by (induction preds arbitrary: acc)
    (simp_all add: directionLoop_acc predPredictions_def split: one_or_many.split)

lemma normalizeTtc_concat:
  "normalizeTtc json = concat (map predPredictions (asList (predictions json)))"
  by (simp add: normalizeTtc_def predictionLoop_acc split: one_or_many.split)

lemma normalizeTtc_records:
  "normalizeTtc json =
     [ttcPrediction pred dir eta.
        pred \<leftarrow> asList (predictions json), dir \<leftarrow> asList (direction pred),
        eta \<leftarrow> asList (prediction dir)]"
proof -
  have single: "concat (map (\<lambda>eta. [f eta]) xs) = map f xs"
    for f :: "EtaBusJson \<Rightarrow> ArrivalPrediction" and xs
    by (induction xs) simp_all
  have "predPredictions = (\<lambda>pred. concat (map (\<lambda>dir. map (ttcPrediction pred dir)
      (asList (prediction dir))) (asList (direction pred))))"
    by (rule ext) (simp add: predPredictions_def directionPredictions_def cong: map_cong)
  then show ?thesis
    by (simp add: normalizeTtc_concat single)
qed

lemma ttc_predictions_set:
  "set (normalizeTtc json) =
     {ttcPrediction pred dir eta | pred dir eta.
        pred \<in> set (asList (predictions json)) \<and> dir \<in> set (asList (direction pred))
        \<and> eta \<in> set (asList (prediction dir))}"
  by (auto simp add: normalizeTtc_concat predPredictions_def directionPredictions_def)

lemma predPredictions_Absent: "direction pred = Absent \<Longrightarrow> predPredictions pred = []"
  by (simp add: predPredictions_def)

lemma directionPredictions_Absent: "prediction dir = Absent \<Longrightarrow> directionPredictions pred dir = []"
  by (simp add: directionPredictions_def)

lemma directionPredictions_routeTag:
  "directionPredictions \<lparr>routeTag = tag, direction = ds\<rparr>
     = directionPredictions \<lparr>routeTag = tag, direction = ds'\<rparr>"
  by (rule ext) (simp add: directionPredictions_def ttcPrediction_def)

lemma ttcRecord_line:
  "line (ttcRecord tag ttl eta) =
     (case Option.bind ttl lineRegex of
        Some tok \<Rightarrow> tok
      | None \<Rightarrow>
          (case Option.bind tag lineRegex of
             Some tok \<Rightarrow> tok
           | None \<Rightarrow> (case tag of Some t \<Rightarrow> t | None \<Rightarrow> [])))"
proof -
  have ne: "lineRegex s = Some tok \<Longrightarrow> tok \<noteq> []" for s tok
    by (auto simp add: lineRegex_def Let_def split: if_splits)
  have ne': "Option.bind x lineRegex = Some tok \<Longrightarrow> tok \<noteq> []" for x tok
    using ne by (cases x) auto
  show ?thesis
    using ne' [of ttl] ne' [of tag]
    by (auto simp add: ttcRecord_def Let_def orString_def orElse_def split: option.splits)
qed

lemma ttcRecord_minutes: "timeMinutes (ttcRecord tag ttl eta) = orZero (parseInt (minutes eta))"
  by (simp add: ttcRecord_def Let_def)


subsection \<open>TTC subway\<close>

lemma subwayPrediction_fields:
  "timeMinutes (subwayPrediction ts item t) = t" "isGhost (subwayPrediction ts item t) = False"
  by (simp_all add: subwayPrediction_def)

lemma timesLoop_acc:
  "timesLoop ts item xs acc = acc @ map (subwayPrediction ts item) (filter (\<lambda>t. t \<noteq> NaN) xs)"
  by (induction xs arbitrary: acc) simp_all

lemma parseTimes_empty: "parseTimes [] = [NaN]"
  by (simp add: parseTimes_def split_def trim_def parseInt_def)

text \<open>What one item contributes to the result of the subway adapter.\<close>

lemma subwayLoop_acc:
  "subwayLoop ts response acc =
     acc @ concat (map (\<lambda>item. case nextTrains item of
                                  None \<Rightarrow> []
                                | Some s \<Rightarrow> map (subwayPrediction ts item)
                                             (filter (\<lambda>t. t \<noteq> NaN) (parseTimes s))) response)"
  by (induction response arbitrary: acc)
    (simp_all add: timesLoop_acc parseTimes_empty split: option.split)

lemma normalizeTtcSubway_concat:
  "normalizeTtcSubway ts response =
     concat (map (\<lambda>item. case nextTrains item of
                            None \<Rightarrow> []
                          | Some s \<Rightarrow> map (subwayPrediction ts item)
                                       (filter (\<lambda>t. t \<noteq> NaN) (parseTimes s))) response)"
  by (simp add: normalizeTtcSubway_def subwayLoop_acc)

lemma normalizeTtcSubway_single:
  "normalizeTtcSubway ts [item] =
     (case nextTrains item of None \<Rightarrow> []
      | Some s \<Rightarrow> map (subwayPrediction ts item) (filter (\<lambda>t. t \<noteq> NaN) (parseTimes s)))"
  by (simp add: normalizeTtcSubway_concat)

lemma normalizeTtcSubway_append:
  "normalizeTtcSubway ts (xs @ ys) = normalizeTtcSubway ts xs @ normalizeTtcSubway ts ys"
  by (simp add: normalizeTtcSubway_concat)

lemma normalizeTtcSubway_Cons:
  "normalizeTtcSubway ts (item # response) =
     normalizeTtcSubway ts [item] @ normalizeTtcSubway ts response"
  by (simp add: normalizeTtcSubway_concat)

lemma subway_predictions_set:
  "set (normalizeTtcSubway ts response) =
     {subwayPrediction ts item t | item t s.
        item \<in> set response \<and> nextTrains item = Some s \<and> t \<in> set (parseTimes s) \<and> t \<noteq> NaN}"
  unfolding normalizeTtcSubway_concat
  by (auto split: option.splits) metis

lemma spec_scenario_subway:
  "normalizeTtcSubway sampleToString
     [\<lparr>nextTrains = Some (str ''3, 7, x, 12''), directionText = Some (str ''Northbound''),
       item_line = Some 1\<rparr>]
   = [\<lparr>line = str ''Line 1'', destination = str ''Northbound'', timeMinutes = Num 3,
       isGhost = False, vehicleId = None, crowding = None, platform = None\<rparr>,
      \<lparr>line = str ''Line 1'', destination = str ''Northbound'', timeMinutes = Num 7,
       isGhost = False, vehicleId = None, crowding = None, platform = None\<rparr>,
      \<lparr>line = str ''Line 1'', destination = str ''Northbound'', timeMinutes = Num 12,
       isGhost = False, vehicleId = None, crowding = None, platform = None\<rparr>]"
  by (simp add: normalizeTtcSubway_single parseTimes_example subwayPrediction_def orString_def
      sampleToString_def decimal.simps) (simp add: str_def)


section \<open>The stop store's operations as list operations\<close>

text \<open>
  The invariant holds of the empty store and every operation keeps it.
\<close>

lemma wf_store_empty: "wf_store []"
  by (simp add: wf_store_def)

lemma set_put: "set (put v db) \<subseteq> insert v (set db)"
  by (induction db) auto

lemma wf_store_put: "wf_store db \<Longrightarrow> wf_store (put v db)"
proof (induction db)
  case Nil
  show ?case by (simp add: wf_store_def)
next
  case (Cons x xs)
  then have xs: "wf_store (put v xs)" and lt: "\<forall>y \<in> set xs. db_id x < db_id y"
    by (simp_all add: wf_store_def)
  have "\<forall>y \<in> set (put v xs). db_id x < db_id y" if "db_id x < db_id v"
    using set_put [of v xs] lt that by auto
  with Cons.prems xs show ?case
    by (auto simp add: wf_store_def)
qed

lemma wf_store_saveStops: "wf_store db \<Longrightarrow> wf_store (saveStops stops db)"
  by (induction stops arbitrary: db) (simp_all add: wf_store_put)

lemma wf_store_delete: "wf_store db \<Longrightarrow> wf_store (delete key db)"
  unfolding wf_store_def delete_def
  by (induction db) auto

lemma wf_store_filter: "wf_store db \<Longrightarrow> wf_store (filter P db)"
  unfolding wf_store_def by (induction db) auto

lemma wf_store_distinct: "wf_store db \<Longrightarrow> distinct (map db_id db)"
  by (simp add: wf_store_def strict_sorted_iff)

lemma find_put_same: "find (\<lambda>s. db_id s = db_id v) (put v db) = Some v"
  by (induction db) auto

lemma find_put_other:
  "key \<noteq> db_id v \<Longrightarrow> find (\<lambda>s. db_id s = key) (put v db) = find (\<lambda>s. db_id s = key) db"
  by (induction db) auto

lemma saveStops_append: "saveStops (xs @ ys) db = saveStops ys (saveStops xs db)"
  by (induction xs arbitrary: db) simp_all

lemma find_saveStops_other:
  "key \<notin> stop_id ` set stops \<Longrightarrow>
     find (\<lambda>s. db_id s = key) (saveStops stops db) = find (\<lambda>s. db_id s = key) db"
proof (induction stops arbitrary: db)
  case Nil
  show ?case by simp
next
  case (Cons stop stops)
  then have "key \<noteq> db_id (storedValue stop)" and "key \<notin> stop_id ` set stops"
    by (auto simp add: storedValue_def)
  with Cons.IH [of "put (storedValue stop) db"] show ?case
    by (simp add: find_put_other)
qed

lemma find_saveStops_last:
  assumes "stop_id stop \<notin> stop_id ` set after"
  shows "find (\<lambda>s. db_id s = stop_id stop) (saveStops (before @ stop # after) db)
     = Some (storedValue stop)"
proof -
  have key: "db_id (storedValue stop) = stop_id stop"
    by (simp add: storedValue_def)
  have "saveStops (before @ stop # after) db
      = saveStops after (put (storedValue stop) (saveStops before db))"
    by (simp add: saveStops_append)
  then show ?thesis
    using find_saveStops_other [OF assms] find_put_same [of "storedValue stop"]
    by (simp add: key)
qed

lemma getStop_stored:
  "find (\<lambda>s. db_id s = key) db = Some (storedValue stop) \<Longrightarrow>
     getStop key db =
       Some \<lparr> r_id = stop_id stop, r_code = stop_code stop, r_agency = stop_agency stop,
              r_name = stop_name stop, r_lat = stop_lat stop, r_lon = stop_lon stop,
              distance = 0, realDistance = 0, r_title = stop_name stop, r_lines = [],
              r_directions = [], r_type = None \<rparr>"
  by (simp add: getStop_def storedValue_def orString_def)

lemma getStop_after_saveStops_distinct:
  assumes "distinct (map stop_id stops)" and "stop \<in> set stops"
  shows "getStop (stop_id stop) (saveStops stops db) =
       Some \<lparr> r_id = stop_id stop, r_code = stop_code stop, r_agency = stop_agency stop,
              r_name = stop_name stop, r_lat = stop_lat stop, r_lon = stop_lon stop,
              distance = 0, realDistance = 0, r_title = stop_name stop, r_lines = [],
              r_directions = [], r_type = None \<rparr>"
proof -
  from assms(2) obtain before after where split: "stops = before @ stop # after"
    by (auto simp add: in_set_conv_decomp)
  with assms(1) have "stop_id stop \<notin> stop_id ` set after"
    by auto
  then show ?thesis
    unfolding split by (intro getStop_stored find_saveStops_last)
qed

lemma deleteLoop_filter:
  "deleteLoop cursor db = filter (\<lambda>s. db_id s \<notin> db_id ` set cursor) db"
proof (induction cursor arbitrary: db)
  case Nil
  show ?case by simp
next
  case (Cons stop cursor)
  show ?case
    by (simp add: Cons.IH delete_def conj_commute)
qed

lemma clearAgency_filter:
  assumes "wf_store db"
  shows "clearAgency agency db = filter (\<lambda>s. db_agency s \<noteq> agency) db"
proof -
  have inj: "inj_on db_id (set db)"
    using wf_store_distinct [OF assms] by (simp add: distinct_map)
  have "db_id s \<notin> db_id ` set (agencyIndex agency db) \<longleftrightarrow> db_agency s \<noteq> agency"
    if "s \<in> set db" for s
  proof
    assume "db_id s \<notin> db_id ` set (agencyIndex agency db)"
    with that show "db_agency s \<noteq> agency"
      by (auto simp add: agencyIndex_def)
  next
    assume other: "db_agency s \<noteq> agency"
    show "db_id s \<notin> db_id ` set (agencyIndex agency db)"
    proof
      assume "db_id s \<in> db_id ` set (agencyIndex agency db)"
      then obtain t where "t \<in> set db" and "db_agency t = agency" and "db_id t = db_id s"
        by (auto simp add: agencyIndex_def)
      with inj that have "t = s" by (auto dest: inj_onD)
      with \<open>db_agency t = agency\<close> other show False by simp
    qed
  qed
  then show ?thesis
    unfolding clearAgency_def deleteLoop_filter
    by (intro filter_cong refl) simp
qed

lemma wf_store_clearAgency: "wf_store db \<Longrightarrow> wf_store (clearAgency agency db)"
  by (simp add: clearAgency_filter wf_store_filter)

lemma cursorLoop_acc: "cursorLoop body cursor results = results @ List.map_filter body cursor"
  by (induction cursor arbitrary: results) (simp_all split: option.split)

lemma set_map_filter_Some:
  "set (List.map_filter body cursor) = {r. \<exists>stop \<in> set cursor. body stop = Some r}"
  by (induction cursor) (auto split: option.splits)

lemma set_cursorLoop:
  "set (cursorLoop body cursor []) = {r. \<exists>stop \<in> set cursor. body stop = Some r}"
  by (simp add: cursorLoop_acc set_map_filter_Some)

lemma set_latIndex:
  "set (latIndex lower upper db) = {s \<in> set db. lower \<le> db_lat s \<and> db_lat s \<le> upper}"
  by (auto simp add: latIndex_def)

lemma rangeStep_Some:
  assumes "rangeStep distanceOf M lat lon rng lowerLon upperLon flt stop = Some r"
  shows "lowerLon \<le> db_lon stop \<and> db_lon stop \<le> upperLon
     \<and> (\<forall>a. flt = Some a \<longrightarrow> db_agency stop = a)
     \<and> planarDistance M (db_lat stop) (db_lon stop) lat lon \<le> rng
     \<and> r_id r = db_id stop \<and> r_agency r = db_agency stop
     \<and> r_lat r = db_lat stop \<and> r_lon r = db_lon stop
     \<and> distance r = planarDistance M (db_lat stop) (db_lon stop) lat lon
     \<and> realDistance r = distanceOf (lat, lon) stop"
  using assms by (auto simp add: rangeStep_def Let_def split: if_splits)

text \<open>
  The examples of the range query. With correctly rounded operations the stop at
  \<open>(1, 2^-30)\<close> has the computed distance 1 from the origin: the sum \<open>1 + 2^-60\<close>
  rounds to 1.
\<close>

lemma roundedMath_examples:
  "Math_sqrt roundedMath 0 = 0" "Math_sqrt roundedMath 1 = 1" "Math_sqrt roundedMath 9 = 3"
  "Math_sqrt roundedMath 25 = 5"
  "exponentiate roundedMath x 2 = roundToDouble (x * x)"
proof -
  have "sqrt (3 * 3) = 3" "sqrt (5 * 5) = 5" by simp_all
  then have "sqrt 9 = 3" "sqrt 25 = 5" by simp_all
  then show "Math_sqrt roundedMath 0 = 0" "Math_sqrt roundedMath 1 = 1"
    "Math_sqrt roundedMath 9 = 3" "Math_sqrt roundedMath 25 = 5"
    by (simp_all add: roundedMath_def)
  show "exponentiate roundedMath x 2 = roundToDouble (x * x)"
    by (simp add: roundedMath_def power2_eq_square)
qed

lemma planarDistance_grid:
  "planarDistance roundedMath 44 (- 79) 44 (- 79) = 0"
  "planarDistance roundedMath 47 (- 79) 44 (- 79) = 3"
  "planarDistance roundedMath 47 (- 75) 44 (- 79) = 5"
  by (simp_all add: planarDistance_def Number_add_def Number_subtract_def roundedMath_examples)

lemma planarDistance_rounds:
  "planarDistance roundedMath 1 (1 / 2 ^ 30) 0 0 = 1"
proof -
  have "Number_subtract (1 / 2 ^ 30) 0 = 1 / 2 ^ 30"
    using roundToDouble_examples(1) by (simp add: Number_subtract_def)
  moreover have "exponentiate roundedMath (1 / 2 ^ 30) 2 = 1 / 2 ^ 60"
    using roundToDouble_examples(2) by (simp add: roundedMath_examples)
  moreover have "Number_add 1 (1 / 2 ^ 60) = 1"
    using roundToDouble_examples(3) by (simp add: Number_add_def)
  moreover have "Number_subtract 1 0 = 1" "exponentiate roundedMath 1 2 = 1"
    by (simp_all add: Number_subtract_def roundedMath_examples)
  ultimately show ?thesis
    by (simp only: planarDistance_def roundedMath_examples)
qed

lemma range_eval:
  "map_sum id (map r_id)
     (getStopsWithinRange sampleDistance roundedMath (saveStops gridStops []) 44 (- 79) 4 None)
   = Inr [str ''GO_UN'', str ''TTC_456'']"
  by (simp add: getStopsWithinRange_def Let_def latIndex_def rangeStep_def gridStops_def
      sampleStop_def storedValue_def sampleDistance_def planarDistance_grid Number_add_def
      Number_subtract_def str_def)

text \<open>
  The query returns a list for every range that is not negative, as rounding is monotone;
  it fails, with \<open>DataError\<close>, exactly when the computed upper bound of the latitude
  is below the computed lower bound.
\<close>

lemma getStopsWithinRange_returns:
  "0 \<le> rng \<Longrightarrow> \<exists>rs. getStopsWithinRange distanceOf M db lat lon rng flt = Inr rs"
  "getStopsWithinRange distanceOf M db lat lon rng flt = Inl DataError \<longleftrightarrow>
     Number_add lat rng < Number_subtract lat rng"
  using range_bounds_ordered [of rng lat]
  by (simp_all add: getStopsWithinRange_def Let_def)

text \<open>
  Conversely, a stored stop that meets the computed conditions is returned.
\<close>

lemma getStopsWithinRange_complete:
  assumes "\<not> Number_add lat rng < Number_subtract lat rng" and "s \<in> set db"
    and "Number_subtract lat rng \<le> db_lat s" and "db_lat s \<le> Number_add lat rng"
    and "Number_subtract lon rng \<le> db_lon s" and "db_lon s \<le> Number_add lon rng"
    and "planarDistance M (db_lat s) (db_lon s) lat lon \<le> rng"
    and "flt = None \<or> flt = Some (db_agency s)"
  shows "\<exists>rs r. getStopsWithinRange distanceOf M db lat lon rng flt = Inr rs \<and> r \<in> set rs
     \<and> r_id r = db_id s"
proof -
  from assms(5-8) obtain r
    where step: "rangeStep distanceOf M lat lon rng (Number_subtract lon rng) (Number_add lon rng)
        flt s = Some r"
      and "r_id r = db_id s"
    by (auto simp add: rangeStep_def Let_def)
  moreover have "s \<in> set (latIndex (Number_subtract lat rng) (Number_add lat rng) db)"
    using assms(2-4) by (simp add: set_latIndex)
  ultimately have "r \<in> set (cursorLoop
      (rangeStep distanceOf M lat lon rng (Number_subtract lon rng) (Number_add lon rng) flt)
      (latIndex (Number_subtract lat rng) (Number_add lat rng) db) [])"
    unfolding set_cursorLoop by blast
  with assms(1) \<open>r_id r = db_id s\<close> show ?thesis
    by (auto simp add: getStopsWithinRange_def Let_def)
qed

text \<open>
  A negative range need not fail: around latitude 1 with the range \<open>-2^-60\<close> both
  computed bounds are 1, the key range is valid, and no stop is returned, as a computed
  distance is not negative.
\<close>

lemma roundToDouble_below_one: "roundToDouble (1 - 1 / 2 ^ 60) = 1"
proof -
  have lo: "2 powr of_int (- 1) \<le> \<bar>1 - 1 / 2 ^ 60 :: real\<bar>"
    by (simp add: powr_minus_divide)
  have hi: "\<bar>1 - 1 / 2 ^ 60 :: real\<bar> < 2 powr of_int (- 1 + 1)"
    by simp
  have "(1 - 1 / 2 ^ 60) / 2 powr of_int (- 1 - 52) = of_int (2 ^ 53 - 1) + (1 - 1 / 2 ^ 7 :: real)"
    by (simp add: powr_minus_divide field_simps)
  moreover have "roundEven (of_int (2 ^ 53 - 1) + (1 - 1 / 2 ^ 7 :: real)) = 2 ^ 53"
  proof -
    have "\<lfloor>of_int (2 ^ 53 - 1) + (1 - 1 / 2 ^ 7 :: real)\<rfloor> = 2 ^ 53 - 1"
      by (subst floor_add_int [symmetric] | simp add: floor_eq_iff)+
    then show ?thesis
      by (simp add: roundEven_def Let_def)
  qed
  ultimately show ?thesis
    using roundToDouble_binade [OF lo hi] by (simp add: powr_minus_divide)
qed

lemma negative_range_example:
  "getStopsWithinRange distanceOf roundedMath db 1 lon (- (1 / 2 ^ 60)) flt = Inr []"
proof -
  have bounds: "Number_subtract 1 (- (1 / 2 ^ 60)) = 1" "Number_add 1 (- (1 / 2 ^ 60)) = 1"
    using roundToDouble_examples(3) roundToDouble_below_one
    by (simp_all add: Number_subtract_def Number_add_def)
  have "0 \<le> planarDistance roundedMath a b 1 lon" for a b
    unfolding planarDistance_def roundedMath_def Number_add_def
    by (simp add: roundToDouble_nonneg)
  then have "rangeStep distanceOf roundedMath 1 lon (- (1 / 2 ^ 60)) lo hi flt stop = None"
    for lo hi stop
    by (simp add: rangeStep_def Let_def not_le) (smt (verit) divide_pos_pos zero_less_power)
  then have "cursorLoop (rangeStep distanceOf roundedMath 1 lon (- (1 / 2 ^ 60)) lo hi flt) cursor [] = []"
    for lo hi cursor
    by (induction cursor) simp_all
  then show ?thesis
    unfolding getStopsWithinRange_def Let_def bounds by simp
qed


section \<open>The adapters on payloads with null entries, and on payloads without\<close>

text \<open>
  On a payload of the declared type the loops that can throw do what the loops that
  cannot throw do; and a loop throws exactly when the array it runs over holds \<open>null\<close>.
\<close>

lemma raw_serviceMap_Some:
  "raw_serviceMap D clock i (map Some services) =
     Inr (map (\<lambda>(j, service). goService D (clock j) service) (enumerate i services))"
  by (induction services arbitrary: i) simp_all

lemma raw_serviceMap_error: "isl (raw_serviceMap D clock i services) \<longleftrightarrow> None \<in> set services"
proof (induction services arbitrary: i)
  case Nil
  show ?case by simp
next
  case (Cons s services)
  show ?case
    using Cons.IH [of "Suc i"] by (cases s) (auto split: sum.splits)
qed

lemma raw_normalizeGoTransit_rawGo:
  "raw_normalizeGoTransit D clock (Some (rawGo r)) = Inr (normalizeGoTransit D clock r)"
proof -
  have "map (\<lambda>x. Some x) xs = map Some xs" for xs :: "GoTransitService list"
    by simp
  then show ?thesis
    by (simp add: raw_normalizeGoTransit_def rawGo_def normalizeGoTransit_def raw_serviceMap_Some
        split: option.split one_or_many.split)
qed

lemma TypeError_iff_isl: "x = Inl TypeError \<longleftrightarrow> isl x"
proof (cases x)
  case (Inl e)
  then show ?thesis by (cases e) simp
next
  case (Inr y)
  then show ?thesis by simp
qed

lemma raw_etaLoop_Some:
  "raw_etaLoop pred dir (map Some etas) acc =
     Inr (acc @ map (ttcRecord (raw_routeTag pred) (raw_title dir)) etas)"
  by (induction etas arbitrary: acc) simp_all

lemma raw_etaLoop_error: "isl (raw_etaLoop pred dir etas acc) \<longleftrightarrow> None \<in> set etas"
proof (induction etas arbitrary: acc)
  case Nil
  show ?case by simp
next
  case (Cons eta etas)
  show ?case
    using Cons.IH by (cases eta) auto
qed

lemma raw_directionLoop_Some:
  "raw_routeTag rp = routeTag pred \<Longrightarrow>
     raw_directionLoop rp (map (\<lambda>dir. Some (rawDirection dir)) dirs) acc =
       Inr (directionLoop pred dirs acc)"
proof (induction dirs arbitrary: acc)
  case Nil
  show ?case by simp
next
  case (Cons dir dirs)
  have one: "raw_etaLoop rp (rawDirection dir) [Some eta] acc
      = Inr (etaLoop pred dir [eta] acc)" for eta
    using Cons.prems by (simp add: rawDirection_def ttcPrediction_def)
  have many: "raw_etaLoop rp (rawDirection dir) (map (\<lambda>eta. Some eta) etas) acc
      = Inr (etaLoop pred dir etas acc)" for etas
    using Cons.prems raw_etaLoop_Some [of rp "rawDirection dir" etas acc]
    by (simp add: rawDirection_def etaLoop_acc ttcPrediction_def [abs_def])
  show ?case
  proof (cases "prediction dir")
    case Absent
    then show ?thesis using Cons by (simp add: rawDirection_def)
  next
    case (One eta)
    have "raw_prediction (rawDirection dir) = RawOne eta"
      by (simp add: rawDirection_def One)
    then show ?thesis using Cons one [of eta] by (simp add: One)
  next
    case (Many etas)
    have "raw_prediction (rawDirection dir) = RawMany (map (\<lambda>eta. Some eta) etas)"
      by (simp add: rawDirection_def Many)
    then show ?thesis using Cons many [of etas] by (simp add: Many)
  qed
qed

lemma raw_directionLoop_error:
  "isl (raw_directionLoop pred dirs acc) \<longleftrightarrow>
     list_ex (\<lambda>x. case x of None \<Rightarrow> True
                 | Some dir \<Rightarrow> nullIn (\<lambda>eta. False) (raw_prediction dir)) dirs"
proof (induction dirs arbitrary: acc)
  case Nil
  show ?case by simp
next
  case (Cons d dirs)
  show ?case
  proof (cases d)
    case None
    then show ?thesis by simp
  next
    case (Some dir)
    have ex: "list_ex (\<lambda>x. case x of None \<Rightarrow> True | Some (y::EtaBusJson) \<Rightarrow> False) etas
        \<longleftrightarrow> None \<in> set etas" for etas
      by (induction etas) (auto split: option.splits)
    show ?thesis
    proof (cases "raw_prediction dir")
      case RawAbsent
      then show ?thesis using Cons.IH Some by simp
    next
      case (RawOne eta)
      then show ?thesis using Cons.IH Some by simp
    next
      case (RawMany etas)
      show ?thesis
      proof (cases "raw_etaLoop pred dir etas acc")
        case (Inl e)
        with raw_etaLoop_error [of pred dir etas acc] have "None \<in> set etas" by simp
        with Inl Some RawMany show ?thesis by (simp add: ex)
      next
        case (Inr acc')
        with raw_etaLoop_error [of pred dir etas acc] have "None \<notin> set etas" by simp
        with Inr Some RawMany Cons.IH [of acc'] show ?thesis by (simp add: ex)
      qed
    qed
  qed
qed

lemma raw_predictionLoop_Some:
  "raw_predictionLoop (map (\<lambda>pred. Some (rawPredictions pred)) preds) acc =
     Inr (predictionLoop preds acc)"
proof (induction preds arbitrary: acc)
  case Nil
  show ?case by simp
next
  case (Cons pred preds)
  have tag: "raw_routeTag (rawPredictions pred) = routeTag pred"
    by (simp add: rawPredictions_def)
  have one: "raw_directionLoop (rawPredictions pred) [Some (rawDirection dir)] acc
      = Inr (directionLoop pred [dir] acc)" for dir
    using raw_directionLoop_Some [OF tag, of "[dir]" acc] by simp
  show ?case
  proof (cases "direction pred")
    case Absent
    then show ?thesis using Cons by (simp add: rawPredictions_def)
  next
    case (One dir)
    have "raw_direction (rawPredictions pred) = RawOne (rawDirection dir)"
      by (simp add: rawPredictions_def One)
    then show ?thesis using Cons one [of dir] by (simp add: One)
  next
    case (Many dirs)
    have "raw_direction (rawPredictions pred) = RawMany (map (\<lambda>dir. Some (rawDirection dir)) dirs)"
      by (simp add: rawPredictions_def Many)
    then show ?thesis
      using Cons raw_directionLoop_Some [OF tag, of dirs acc] by (simp add: Many)
  qed
qed

lemma raw_predictionLoop_error:
  "isl (raw_predictionLoop preds acc) \<longleftrightarrow>
     list_ex (\<lambda>x. case x of None \<Rightarrow> True
                 | Some pred \<Rightarrow>
                     nullIn (\<lambda>dir. nullIn (\<lambda>eta. False) (raw_prediction dir)) (raw_direction pred))
       preds"
proof (induction preds arbitrary: acc)
  case Nil
  show ?case by simp
next
  case (Cons p preds)
  show ?case
  proof (cases p)
    case None
    then show ?thesis by simp
  next
    case (Some pred)
    show ?thesis
    proof (cases "raw_direction pred")
      case RawAbsent
      then show ?thesis using Cons.IH Some by simp
    next
      case (RawOne dir)
      show ?thesis
      proof (cases "raw_directionLoop pred [Some dir] acc")
        case (Inl e)
        with raw_directionLoop_error [of pred "[Some dir]" acc]
        have "nullIn (\<lambda>eta. False) (raw_prediction dir)" by simp
        with Inl Some RawOne show ?thesis by simp
      next
        case (Inr acc')
        with raw_directionLoop_error [of pred "[Some dir]" acc]
        have "\<not> nullIn (\<lambda>eta. False) (raw_prediction dir)" by simp
        with Inr Some RawOne Cons.IH [of acc'] show ?thesis by simp
      qed
    next
      case (RawMany dirs)
      show ?thesis
      proof (cases "raw_directionLoop pred dirs acc")
        case (Inl e)
        with raw_directionLoop_error [of pred dirs acc]
        have "list_ex (\<lambda>x. case x of None \<Rightarrow> True
            | Some dir \<Rightarrow> nullIn (\<lambda>eta. False) (raw_prediction dir)) dirs" by simp
        with Inl Some RawMany show ?thesis by simp
      next
        case (Inr acc')
        with raw_directionLoop_error [of pred dirs acc]
        have "\<not> list_ex (\<lambda>x. case x of None \<Rightarrow> True
            | Some dir \<Rightarrow> nullIn (\<lambda>eta. False) (raw_prediction dir)) dirs" by simp
        with Inr Some RawMany Cons.IH [of acc'] show ?thesis by simp
      qed
    qed
  qed
qed

lemma raw_normalizeTtc_rawTtc: "raw_normalizeTtc (Some (rawTtc json)) = Inr (normalizeTtc json)"
proof (cases "predictions json")
  case Absent
  then show ?thesis by (simp add: raw_normalizeTtc_def rawTtc_def normalizeTtc_def)
next
  case (One pred)
  then show ?thesis
    using raw_predictionLoop_Some [of "[pred]" "[]"]
    by (simp add: raw_normalizeTtc_def rawTtc_def normalizeTtc_def)
next
  case (Many preds)
  then show ?thesis
    using raw_predictionLoop_Some [of preds "[]"]
    by (simp add: raw_normalizeTtc_def rawTtc_def normalizeTtc_def)
qed

lemma raw_normalizeTtc_error: "isl (raw_normalizeTtc (Some j)) \<longleftrightarrow> ttcNull j"
proof (cases "raw_predictions j")
  case RawAbsent
  then show ?thesis by (simp add: raw_normalizeTtc_def ttcNull_def)
next
  case (RawOne pred)
  then show ?thesis
    using raw_predictionLoop_error [of "[Some pred]" "[]"]
    by (simp add: raw_normalizeTtc_def ttcNull_def)
next
  case (RawMany preds)
  then show ?thesis
    using raw_predictionLoop_error [of preds "[]"]
    by (simp add: raw_normalizeTtc_def ttcNull_def)
qed

lemma raw_subwayLoop_Some:
  "raw_subwayLoop ts (map Some items) acc = Inr (subwayLoop ts items acc)"
  by (induction items arbitrary: acc) (simp_all split: option.split)

lemma raw_subwayLoop_error: "isl (raw_subwayLoop ts items acc) \<longleftrightarrow> None \<in> set items"
proof (induction items arbitrary: acc)
  case Nil
  show ?case by simp
next
  case (Cons item items)
  show ?case
    using Cons.IH by (cases item) (auto split: option.splits)
qed


section \<open>The claims\<close>

subsection \<open>C1: ghost flag and minutes of a GO service entry\<close>

text \<open>
  Claim C1. For the service entry at any index of the \<open>NextService\<close> list, the record
  \<open>normalizeGoTransit\<close> emits at that index has \<open>isGhost\<close> true exactly when the
  entry's \<open>Computed\<close> flag is 0 (so false when it is 1). Its \<open>timeMinutes\<close> is
  \<open>max(0, round((selectedTime - now) / 60000))\<close>, where the selected time is the
  scheduled departure time when the flag is not 1 and the computed departure time, when the
  entry carries one, when the flag is 1; \<open>now\<close> is the clock reading taken for that
  entry. A timestamp that is not a valid date gives \<open>NaN\<close>, as the same expression
  gives in JavaScript. Whenever \<open>timeMinutes\<close> is an integer it is not negative, also
  for a departure in the past. The entry whose computed time is absent is claim C10.
\<close>

theorem normalizeGoTransit_entry:
  assumes "data apiResponse = Some d" and "NextService d = Many services"
    and "i < length services"
  shows "let p = normalizeGoTransit Date_parse clock apiResponse ! i; s = services ! i in
     length (normalizeGoTransit Date_parse clock apiResponse) = length services
     \<and> isGhost p = (Computed s = 0)
     \<and> (Computed s = 1 \<longrightarrow> \<not> isGhost p)
     \<and> (Computed s \<noteq> 1 \<longrightarrow>
          timeMinutes p =
            (case Date_parse (ScheduledDepartureTime s) of
               None \<Rightarrow> NaN
             | Some t \<Rightarrow> Num (max 0 (Math_round (real_of_int (t - clock i) / 60000)))))
     \<and> (\<forall>c. Computed s = 1 \<and> ComputedDepartureTime s = Some c \<and> c \<noteq> [] \<longrightarrow>
          timeMinutes p =
            (case Date_parse c of
               None \<Rightarrow> NaN
             | Some t \<Rightarrow> Num (max 0 (Math_round (real_of_int (t - clock i) / 60000)))))
     \<and> (\<forall>m. timeMinutes p = Num m \<longrightarrow> 0 \<le> m)"
proof -
  have sv: "goServices apiResponse = services"
    using assms(1,2) by (rule goServices_Many)
  have len: "length (normalizeGoTransit Date_parse clock apiResponse) = length services"
    by (simp add: normalizeGoTransit_services sv)
  have nth: "normalizeGoTransit Date_parse clock apiResponse ! i
      = goService Date_parse (clock i) (services ! i)"
    using normalizeGoTransit_nth [of i apiResponse Date_parse clock] assms(3) sv by simp
  show ?thesis
    unfolding Let_def nth
    using len goService_not_negative [of Date_parse "clock i" "services ! i"]
    by (simp add: goService_isGhost goService_minutes_scheduled goService_minutes_computed)
qed

text \<open>
  Two entries read at time zero: a tracked one leaving at 12:07:20 (seven minutes, not a
  ghost) and the same entry with the flag 0, scheduled for 12:05:00 (five minutes, a
  ghost).
\<close>

theorem normalizeGoTransit_entry_witness:
  "data (sampleGo [sampleService, sampleService\<lparr>Computed := 0\<rparr>])
     = Some \<lparr> NextService = Many [sampleService, sampleService\<lparr>Computed := 0\<rparr>], StopCode = Some (str ''UN'') \<rparr>
   \<and> length (normalizeGoTransit sampleDates (\<lambda>i. 0) (sampleGo [sampleService, sampleService\<lparr>Computed := 0\<rparr>])) = 2
   \<and> \<not> isGhost (normalizeGoTransit sampleDates (\<lambda>i. 0) (sampleGo [sampleService, sampleService\<lparr>Computed := 0\<rparr>]) ! 0)
   \<and> timeMinutes (normalizeGoTransit sampleDates (\<lambda>i. 0) (sampleGo [sampleService, sampleService\<lparr>Computed := 0\<rparr>]) ! 0) = Num 7
   \<and> isGhost (normalizeGoTransit sampleDates (\<lambda>i. 0) (sampleGo [sampleService, sampleService\<lparr>Computed := 0\<rparr>]) ! 1)
   \<and> timeMinutes (normalizeGoTransit sampleDates (\<lambda>i. 0) (sampleGo [sampleService, sampleService\<lparr>Computed := 0\<rparr>]) ! 1) = Num 5"
proof -
  let ?svs = "[sampleService, sampleService\<lparr>Computed := 0\<rparr>]"
  let ?d = "\<lparr> NextService = Many ?svs, StopCode = Some (str ''UN'') \<rparr>"
  have d: "data (sampleGo ?svs) = Some ?d" by (simp add: sampleGo_def)
  have n: "NextService ?d = Many ?svs" by simp
  have i0: "(0::nat) < length ?svs" and i1: "(1::nat) < length ?svs" by simp_all
  have c0: "Computed (?svs ! 0) = 1" and c1: "Computed (?svs ! 1) = 0"
    and t0: "ComputedDepartureTime (?svs ! 0) = Some (str ''2024-05-01T12:07:20'')"
    and t1: "ScheduledDepartureTime (?svs ! 1) = (str ''2024-05-01T12:05:00'')"
    by (simp_all add: sampleService_def)
  have m0: "Math_round (real_of_int (440000 - 0) / 60000) = 7"
    and m1: "Math_round (real_of_int (300000 - 0) / 60000) = 5"
    by (simp_all add: Math_round_def)
  have p0: "sampleDates (str ''2024-05-01T12:07:20'') = Some 440000"
    and p1: "sampleDates (str ''2024-05-01T12:05:00'') = Some 300000"
    by (simp_all add: sampleDates_def str_def)
  note e0 = normalizeGoTransit_entry [OF d n i0, of sampleDates "\<lambda>i. 0", unfolded Let_def]
  note e1 = normalizeGoTransit_entry [OF d n i1, of sampleDates "\<lambda>i. 0", unfolded Let_def]
  have "length (normalizeGoTransit sampleDates (\<lambda>i. 0) (sampleGo ?svs)) = 2"
    using e0 by simp
  moreover have "\<not> isGhost (normalizeGoTransit sampleDates (\<lambda>i. 0) (sampleGo ?svs) ! 0)"
    using e0 c0 by simp
  moreover have "timeMinutes (normalizeGoTransit sampleDates (\<lambda>i. 0) (sampleGo ?svs) ! 0) = Num 7"
    using e0 c0 t0 p0 m0 by simp
  moreover have "isGhost (normalizeGoTransit sampleDates (\<lambda>i. 0) (sampleGo ?svs) ! 1)"
    using e1 c1 by simp
  moreover have "timeMinutes (normalizeGoTransit sampleDates (\<lambda>i. 0) (sampleGo ?svs) ! 1) = Num 5"
    using e1 c1 t1 p1 m1 by simp
  ultimately show ?thesis using d by blast
qed


subsection \<open>C2: sign of the minutes\<close>

text \<open>
  Claim C2 says that every record of every adapter has \<open>timeMinutes \<ge> 0\<close>, also when a
  minutes field parses to a negative integer. The TTC adapter passes the parsed integer on:
  a prediction whose minutes field is \<open>-5\<close> comes out with \<open>timeMinutes = -5\<close>, also
  when a no-break space precedes the sign. And the GO adapter gives \<open>NaN\<close>, which is not
  \<open>\<ge> 0\<close>, for an entry whose selected timestamp is not a valid date.
\<close>

theorem timeMinutes_negative_counterexample:
  "map timeMinutes (normalizeTtc (sampleTtc (Some (str ''504 - W King towards Distillery Loop''))
       (Some (str ''504'')) [str ''-5'', 0xA0 # str ''-5'']))
     = [Num (- 5), Num (- 5)]
   \<and> \<not> nonNegative (Num (- 5))
   \<and> map timeMinutes (normalizeGoTransit sampleDates (\<lambda>i. 0)
         (sampleGo [sampleService\<lparr>ComputedDepartureTime := Some (str ''soon'')\<rparr>]))
     = [NaN]
   \<and> \<not> nonNegative NaN"
  by (simp add: normalizeTtc_def sampleTtc_def ttcPrediction_def ttcRecord_minutes parseInt_examples
      orZero_def nonNegative_def normalizeGoTransit_def sampleGo_def goService_minutes
      departureTime_def sampleService_def sampleDates_def)
    (simp add: str_def)

text \<open>
  Claim C2 as amended. The record \<open>normalizeGoTransit\<close> emits for a service entry has
  \<open>timeMinutes \<ge> 0\<close> when the timestamp selected for the entry is a valid date, and
  \<open>NaN\<close> when it is not. The \<open>timeMinutes\<close> of the records of \<open>normalizeTtc\<close> are, in
  order, \<open>parseInt(minutes) || 0\<close> of the arrival estimates of the payload, that is the
  parsed value unless it is \<open>NaN\<close>; those of the records of \<open>normalizeTtcSubway\<close> are, in
  order, the parsed values of the tokens of the \<open>nextTrains\<close> strings that do not
  parse to \<open>NaN\<close>. So a negative parsed value is passed through unchanged, and all
  records of either adapter have \<open>timeMinutes \<ge> 0\<close> exactly when no minutes field (no
  token) of the payload parses to a negative number.
\<close>

theorem timeMinutes_nonNegative:
  "length (normalizeGoTransit Date_parse clock apiResponse) = length (goServices apiResponse)
   \<and> (\<forall>i < length (goServices apiResponse).
         (departureTime Date_parse (goServices apiResponse ! i) = None \<longrightarrow>
            timeMinutes (normalizeGoTransit Date_parse clock apiResponse ! i) = NaN)
         \<and> (departureTime Date_parse (goServices apiResponse ! i) \<noteq> None \<longrightarrow>
            nonNegative (timeMinutes (normalizeGoTransit Date_parse clock apiResponse ! i))))
   \<and> map timeMinutes (normalizeTtc json) =
       [case parseInt (minutes eta) of NaN \<Rightarrow> Num 0 | _ \<Rightarrow> parseInt (minutes eta).
          pred \<leftarrow> asList (predictions json), dir \<leftarrow> asList (direction pred),
          eta \<leftarrow> asList (prediction dir)]
   \<and> (list_all (\<lambda>p. nonNegative (timeMinutes p)) (normalizeTtc json) \<longleftrightarrow>
        (\<forall>pred \<in> set (asList (predictions json)). \<forall>dir \<in> set (asList (direction pred)).
           \<forall>eta \<in> set (asList (prediction dir)). \<not> negative (parseInt (minutes eta))))
   \<and> map timeMinutes (normalizeTtcSubway Number_toString response) =
       [t. item \<leftarrow> response,
           t \<leftarrow> (case nextTrains item of None \<Rightarrow> [] | Some s \<Rightarrow> map (\<lambda>t. parseInt (trim t)) (split 0x2C s)),
           t \<noteq> NaN]
   \<and> (list_all (\<lambda>p. nonNegative (timeMinutes p)) (normalizeTtcSubway Number_toString response) \<longleftrightarrow>
        (\<forall>item \<in> set response. \<forall>s. nextTrains item = Some s \<longrightarrow>
           (\<forall>t \<in> set (split 0x2C s). \<not> negative (parseInt (trim t)))))"
proof (intro conjI allI impI)
  show "length (normalizeGoTransit Date_parse clock apiResponse) = length (goServices apiResponse)"
    by (rule length_normalizeGoTransit)
next
  fix i assume i: "i < length (goServices apiResponse)"
    and "departureTime Date_parse (goServices apiResponse ! i) = None"
  then show "timeMinutes (normalizeGoTransit Date_parse clock apiResponse ! i) = NaN"
    by (simp add: normalizeGoTransit_nth goService_minutes)
next
  fix i assume i: "i < length (goServices apiResponse)"
    and "departureTime Date_parse (goServices apiResponse ! i) \<noteq> None"
  then show "nonNegative (timeMinutes (normalizeGoTransit Date_parse clock apiResponse ! i))"
    by (auto simp add: normalizeGoTransit_nth goService_minutes nonNegative_def)
next
  have single: "concat (map (\<lambda>eta. [f eta]) xs) = map f xs" for f :: "EtaBusJson \<Rightarrow> number" and xs
    by (induction xs) simp_all
  show "map timeMinutes (normalizeTtc json) =
       [case parseInt (minutes eta) of NaN \<Rightarrow> Num 0 | _ \<Rightarrow> parseInt (minutes eta).
          pred \<leftarrow> asList (predictions json), dir \<leftarrow> asList (direction pred),
          eta \<leftarrow> asList (prediction dir)]"
    by (simp add: normalizeTtc_records map_concat comp_def ttcPrediction_def ttcRecord_minutes
        orZero_cases single)
next
  show "list_all (\<lambda>p. nonNegative (timeMinutes p)) (normalizeTtc json) \<longleftrightarrow>
        (\<forall>pred \<in> set (asList (predictions json)). \<forall>dir \<in> set (asList (direction pred)).
           \<forall>eta \<in> set (asList (prediction dir)). \<not> negative (parseInt (minutes eta)))"
  proof -
    have "list_all (\<lambda>p. nonNegative (timeMinutes p)) (normalizeTtc json) \<longleftrightarrow>
        (\<forall>pred \<in> set (asList (predictions json)). \<forall>dir \<in> set (asList (direction pred)).
           \<forall>eta \<in> set (asList (prediction dir)).
             nonNegative (timeMinutes (ttcPrediction pred dir eta)))"
      unfolding list_all_iff ttc_predictions_set by blast
    then show ?thesis
      by (simp add: ttcPrediction_def ttcRecord_minutes nonNegative_orZero)
  qed
next
  have keep: "concat (map (\<lambda>t. if t \<noteq> NaN then [t] else []) xs) = filter (\<lambda>t. t \<noteq> NaN) xs"
    for xs :: "number list"
    by (induction xs) simp_all
  have item: "map timeMinutes (case nextTrains item of None \<Rightarrow> []
        | Some s \<Rightarrow> map (subwayPrediction Number_toString item) (filter (\<lambda>t. t \<noteq> NaN) (parseTimes s)))
      = filter (\<lambda>t. t \<noteq> NaN) (case nextTrains item of None \<Rightarrow> []
        | Some s \<Rightarrow> map (\<lambda>t. parseInt (trim t)) (split 0x2C s))" for item
    by (simp add: parseTimes_def comp_def subwayPrediction_fields split: option.split)
  show "map timeMinutes (normalizeTtcSubway Number_toString response) =
       [t. item \<leftarrow> response,
           t \<leftarrow> (case nextTrains item of None \<Rightarrow> [] | Some s \<Rightarrow> map (\<lambda>t. parseInt (trim t)) (split 0x2C s)),
           t \<noteq> NaN]"
    by (simp add: normalizeTtcSubway_concat map_concat comp_def item keep)
next
  show "list_all (\<lambda>p. nonNegative (timeMinutes p)) (normalizeTtcSubway Number_toString response) \<longleftrightarrow>
        (\<forall>item \<in> set response. \<forall>s. nextTrains item = Some s \<longrightarrow>
           (\<forall>t \<in> set (split 0x2C s). \<not> negative (parseInt (trim t))))"
  proof -
    have "list_all (\<lambda>p. nonNegative (timeMinutes p)) (normalizeTtcSubway Number_toString response) \<longleftrightarrow>
        (\<forall>item \<in> set response. \<forall>s. nextTrains item = Some s \<longrightarrow>
           (\<forall>t \<in> set (parseTimes s). t \<noteq> NaN \<longrightarrow>
              nonNegative (timeMinutes (subwayPrediction Number_toString item t))))"
      unfolding list_all_iff subway_predictions_set by blast
    moreover have "(t \<noteq> NaN \<longrightarrow> nonNegative t) = (\<not> negative t)" for t
      by (cases t) (auto simp add: nonNegative_def negative_def)
    ultimately show ?thesis
      by (simp add: subwayPrediction_fields parseTimes_def)
  qed
qed

text \<open>
  A GO entry leaving in seven minutes and one whose scheduled time is not a date; two
  arrival estimates, the second without a number; and the subway item of the
  specification's example.
\<close>

theorem timeMinutes_nonNegative_witness:
  "nonNegative (timeMinutes (normalizeGoTransit sampleDates (\<lambda>i. 0)
       (sampleGo [sampleService, sampleService\<lparr>ScheduledDepartureTime := str ''soon'', Computed := 0\<rparr>]) ! 0))
   \<and> timeMinutes (normalizeGoTransit sampleDates (\<lambda>i. 0)
       (sampleGo [sampleService, sampleService\<lparr>ScheduledDepartureTime := str ''soon'', Computed := 0\<rparr>]) ! 1) = NaN
   \<and> map timeMinutes (normalizeTtc (sampleTtc (Some (str ''504 - W King'')) (Some (str ''504'')) [str ''4'', str ''x'']))
       = [Num 4, Num 0]
   \<and> list_all (\<lambda>p. nonNegative (timeMinutes p))
       (normalizeTtc (sampleTtc (Some (str ''504 - W King'')) (Some (str ''504'')) [str ''4'', str ''x'']))
   \<and> map timeMinutes (normalizeTtcSubway sampleToString [sampleSubway (str ''3, 7, x, 12'')])
       = [Num 3, Num 7, Num 12]
   \<and> list_all (\<lambda>p. nonNegative (timeMinutes p))
       (normalizeTtcSubway sampleToString [sampleSubway (str ''3, 7, x, 12'')])"
proof -
  let ?go = "sampleGo [sampleService, sampleService\<lparr>ScheduledDepartureTime := str ''soon'', Computed := 0\<rparr>]"
  let ?ttc = "sampleTtc (Some (str ''504 - W King'')) (Some (str ''504'')) [str ''4'', str ''x'']"
  let ?sub = "[sampleSubway (str ''3, 7, x, 12'')]"
  note t = timeMinutes_nonNegative [of sampleDates "\<lambda>i. 0" ?go ?ttc sampleToString ?sub]
  have sv: "goServices ?go
      = [sampleService, sampleService\<lparr>ScheduledDepartureTime := str ''soon'', Computed := 0\<rparr>]"
    by (simp add: goServices_def sampleGo_def)
  have d0: "departureTime sampleDates (goServices ?go ! 0) \<noteq> None"
    unfolding sv by (simp add: departureTime_def sampleService_def sampleDates_def str_def)
  have d1: "departureTime sampleDates (goServices ?go ! 1) = None"
    unfolding sv by (simp add: departureTime_def sampleService_def sampleDates_def str_def)
  have i0: "0 < length (goServices ?go)" and i1: "1 < length (goServices ?go)"
    by (simp_all add: sv)
  have g0: "nonNegative (timeMinutes (normalizeGoTransit sampleDates (\<lambda>i. 0) ?go ! 0))"
    using t i0 d0 by blast
  have g1: "timeMinutes (normalizeGoTransit sampleDates (\<lambda>i. 0) ?go ! 1) = NaN"
    using t i1 d1 by blast
  have "map timeMinutes (normalizeTtc ?ttc) =
       [case parseInt (minutes eta) of NaN \<Rightarrow> Num 0 | _ \<Rightarrow> parseInt (minutes eta).
          pred \<leftarrow> asList (predictions ?ttc), dir \<leftarrow> asList (direction pred),
          eta \<leftarrow> asList (prediction dir)]"
    using t by blast
  then have tm: "map timeMinutes (normalizeTtc ?ttc) = [Num 4, Num 0]"
    by (simp add: sampleTtc_def parseInt_examples)
  have "\<forall>pred \<in> set (asList (predictions ?ttc)). \<forall>dir \<in> set (asList (direction pred)).
      \<forall>eta \<in> set (asList (prediction dir)). \<not> negative (parseInt (minutes eta))"
    by (simp add: sampleTtc_def parseInt_examples negative_def)
  with t have tn: "list_all (\<lambda>p. nonNegative (timeMinutes p)) (normalizeTtc ?ttc)"
    by blast
  have times: "map (\<lambda>t. parseInt (trim t)) (split 0x2C (str ''3, 7, x, 12''))
      = [Num 3, Num 7, NaN, Num 12]"
    using parseTimes_example by (simp add: parseTimes_def)
  have "map timeMinutes (normalizeTtcSubway sampleToString ?sub) =
       [t. item \<leftarrow> ?sub,
           t \<leftarrow> (case nextTrains item of None \<Rightarrow> [] | Some s \<Rightarrow> map (\<lambda>t. parseInt (trim t)) (split 0x2C s)),
           t \<noteq> NaN]"
    using t by blast
  then have sm: "map timeMinutes (normalizeTtcSubway sampleToString ?sub) = [Num 3, Num 7, Num 12]"
    by (simp add: sampleSubway_def times)
  have "list_all (\<lambda>t. \<not> negative t) (map (\<lambda>t. parseInt (trim t)) (split 0x2C (str ''3, 7, x, 12'')))"
    unfolding times by (simp add: negative_def)
  then have "\<forall>item \<in> set ?sub. \<forall>s. nextTrains item = Some s \<longrightarrow>
      (\<forall>t \<in> set (split 0x2C s). \<not> negative (parseInt (trim t)))"
    by (simp add: sampleSubway_def list_all_iff)
  with t have sn: "list_all (\<lambda>p. nonNegative (timeMinutes p)) (normalizeTtcSubway sampleToString ?sub)"
    by blast
  show ?thesis
    by (intro conjI) (fact g0 g1 tm tn sm sn)+
qed


subsection \<open>C3: the range query\<close>

text \<open>
  Claim C3 says that the query returns only stops whose planar distance
  \<open>sqrt(dLat\<^sup>2 + dLon\<^sup>2)\<close> from the query point does not exceed the range. The query
  compares the distance it computes in double arithmetic. For the query point
  \<open>(0, 0)\<close>, the range 1 and a stop at \<open>(1, 2^-30)\<close> the squares are 1 and
  \<open>2^-60\<close>, their sum rounds to 1 and the computed distance is 1: the stop is returned,
  and its planar distance exceeds 1.
\<close>

theorem getStopsWithinRange_rounding_counterexample:
  "\<exists>rs. getStopsWithinRange sampleDistance roundedMath
           (saveStops [sampleStop (str ''TTC_456'') (str ''456'') ttc (str ''King St W at Spadina Ave'')
                         1 (1 / 2 ^ 30)] [])
           0 0 1 None = Inr rs
     \<and> map r_id rs = [str ''TTC_456'']
     \<and> map r_lat rs = [1] \<and> map r_lon rs = [1 / 2 ^ 30]
     \<and> map distance rs = [1]
     \<and> 1 < sqrt ((1 - 0)\<^sup>2 + (1 / 2 ^ 30 - 0)\<^sup>2)"
proof -
  have pd: "planarDistance roundedMath 1 (1 / 1073741824) 0 0 = 1"
    using planarDistance_rounds by simp
  have "(1::real) < (1 - 0)\<^sup>2 + (1 / 2 ^ 30 - 0)\<^sup>2"
    by simp
  then have far: "1 < sqrt ((1 - 0)\<^sup>2 + (1 / 2 ^ 30 - 0)\<^sup>2)"
    by (simp only: real_sqrt_gt_1_iff)
  show ?thesis
    using far
    by (simp add: getStopsWithinRange_def Let_def latIndex_def rangeStep_def sampleStop_def
        storedValue_def Number_add_def Number_subtract_def pd)
qed

text \<open>
  Claim C3 as amended. For every store content, query point, radius and optional agency
  filter, and whatever the platform's \<open>Math.sqrt\<close> and \<open>**\<close> compute: every list
  the query returns is sorted non-decreasing by \<open>realDistance\<close> and holds only copies of
  stored stops whose latitude lies between the bounds \<open>lat - range\<close> and
  \<open>lat + range\<close> as computed in double arithmetic, whose longitude lies between
  \<open>lon - range\<close> and \<open>lon + range\<close> as computed, whose planar distance
  \<open>sqrt(dLat\<^sup>2 + dLon\<^sup>2)\<close> as computed in double arithmetic is at most the range,
  and whose agency is the filter's when a filter is given. When the query returns and
  when it fails is \<open>getStopsWithinRange_returns\<close>.
\<close>

theorem getStopsWithinRange_sound:
  assumes "getStopsWithinRange distanceOf M db lat lon rng flt = Inr rs"
  shows "sorted (map realDistance rs)
     \<and> (\<forall>r \<in> set rs.
           Number_subtract lat rng \<le> r_lat r \<and> r_lat r \<le> Number_add lat rng
           \<and> Number_subtract lon rng \<le> r_lon r \<and> r_lon r \<le> Number_add lon rng
           \<and> Math_sqrt M (Number_add (exponentiate M (Number_subtract (r_lat r) lat) 2)
                                     (exponentiate M (Number_subtract (r_lon r) lon) 2)) \<le> rng
           \<and> distance r =
               Math_sqrt M (Number_add (exponentiate M (Number_subtract (r_lat r) lat) 2)
                                       (exponentiate M (Number_subtract (r_lon r) lon) 2))
           \<and> (\<forall>a. flt = Some a \<longrightarrow> r_agency r = a)
           \<and> (\<exists>s \<in> set db. r_id r = db_id s \<and> r_agency r = db_agency s
                 \<and> r_lat r = db_lat s \<and> r_lon r = db_lon s
                 \<and> realDistance r = distanceOf (lat, lon) s))"
proof (rule conjI)
  show "sorted (map realDistance rs)"
    using assms by (auto simp add: getStopsWithinRange_def Let_def split: if_splits)
next
  show "\<forall>r \<in> set rs.
      Number_subtract lat rng \<le> r_lat r \<and> r_lat r \<le> Number_add lat rng
      \<and> Number_subtract lon rng \<le> r_lon r \<and> r_lon r \<le> Number_add lon rng
      \<and> Math_sqrt M (Number_add (exponentiate M (Number_subtract (r_lat r) lat) 2)
                                (exponentiate M (Number_subtract (r_lon r) lon) 2)) \<le> rng
      \<and> distance r =
          Math_sqrt M (Number_add (exponentiate M (Number_subtract (r_lat r) lat) 2)
                                  (exponentiate M (Number_subtract (r_lon r) lon) 2))
      \<and> (\<forall>a. flt = Some a \<longrightarrow> r_agency r = a)
      \<and> (\<exists>s \<in> set db. r_id r = db_id s \<and> r_agency r = db_agency s
            \<and> r_lat r = db_lat s \<and> r_lon r = db_lon s
            \<and> realDistance r = distanceOf (lat, lon) s)"
  proof
    fix r assume "r \<in> set rs"
    with assms have "r \<in> set (cursorLoop
        (rangeStep distanceOf M lat lon rng (Number_subtract lon rng) (Number_add lon rng) flt)
        (latIndex (Number_subtract lat rng) (Number_add lat rng) db) [])"
      by (auto simp add: getStopsWithinRange_def Let_def split: if_splits)
    then obtain stop where stop: "stop \<in> set db"
      and lat: "Number_subtract lat rng \<le> db_lat stop" "db_lat stop \<le> Number_add lat rng"
      and step: "rangeStep distanceOf M lat lon rng (Number_subtract lon rng) (Number_add lon rng)
          flt stop = Some r"
      unfolding set_cursorLoop set_latIndex by blast
    note props = rangeStep_Some [OF step, unfolded planarDistance_def]
    from props lat have "Number_subtract lat rng \<le> r_lat r \<and> r_lat r \<le> Number_add lat rng
        \<and> Number_subtract lon rng \<le> r_lon r \<and> r_lon r \<le> Number_add lon rng
        \<and> Math_sqrt M (Number_add (exponentiate M (Number_subtract (r_lat r) lat) 2)
                                  (exponentiate M (Number_subtract (r_lon r) lon) 2)) \<le> rng
        \<and> distance r =
            Math_sqrt M (Number_add (exponentiate M (Number_subtract (r_lat r) lat) 2)
                                    (exponentiate M (Number_subtract (r_lon r) lon) 2))
        \<and> (\<forall>a. flt = Some a \<longrightarrow> r_agency r = a)"
      by simp
    moreover from props stop have "\<exists>s \<in> set db. r_id r = db_id s \<and> r_agency r = db_agency s
        \<and> r_lat r = db_lat s \<and> r_lon r = db_lon s
        \<and> realDistance r = distanceOf (lat, lon) s"
      by blast
    ultimately show "Number_subtract lat rng \<le> r_lat r \<and> r_lat r \<le> Number_add lat rng
        \<and> Number_subtract lon rng \<le> r_lon r \<and> r_lon r \<le> Number_add lon rng
        \<and> Math_sqrt M (Number_add (exponentiate M (Number_subtract (r_lat r) lat) 2)
                                  (exponentiate M (Number_subtract (r_lon r) lon) 2)) \<le> rng
        \<and> distance r =
            Math_sqrt M (Number_add (exponentiate M (Number_subtract (r_lat r) lat) 2)
                                    (exponentiate M (Number_subtract (r_lon r) lon) 2))
        \<and> (\<forall>a. flt = Some a \<longrightarrow> r_agency r = a)
        \<and> (\<exists>s \<in> set db. r_id r = db_id s \<and> r_agency r = db_agency s
              \<and> r_lat r = db_lat s \<and> r_lon r = db_lon s
              \<and> realDistance r = distanceOf (lat, lon) s)"
      by blast
  qed
qed

text \<open>
  Four saved stops on whole degrees, queried around the first with radius 4: the stop
  itself and the one 3 away are returned, nearest first; the one inside the bounding box
  but 5 away and the one outside the box are not. The bounds and the distances are whole
  numbers, which double arithmetic computes exactly.
\<close>

theorem getStopsWithinRange_sound_witness:
  "\<exists>rs. getStopsWithinRange sampleDistance roundedMath (saveStops gridStops []) 44 (- 79) 4 None
         = Inr rs
     \<and> map r_id rs = [str ''GO_UN'', str ''TTC_456'']
     \<and> sorted (map realDistance rs)
     \<and> map distance rs = [0, 3]
     \<and> list_all (\<lambda>r. Math_sqrt roundedMath
           (Number_add (exponentiate roundedMath (Number_subtract (r_lat r) 44) 2)
                       (exponentiate roundedMath (Number_subtract (r_lon r) (- 79)) 2)) \<le> 4) rs"
proof -
  let ?q = "getStopsWithinRange sampleDistance roundedMath (saveStops gridStops []) 44 (- 79) 4 None"
  have "(0::real) \<le> 4" by simp
  then obtain rs where rs: "?q = Inr rs"
    using getStopsWithinRange_returns(1) by blast
  note t = getStopsWithinRange_sound [OF rs]
  from t have sorted: "sorted (map realDistance rs)"
    and near: "\<forall>r \<in> set rs. Math_sqrt roundedMath
           (Number_add (exponentiate roundedMath (Number_subtract (r_lat r) 44) 2)
                       (exponentiate roundedMath (Number_subtract (r_lon r) (- 79)) 2)) \<le> 4"
    and dist: "\<forall>r \<in> set rs. distance r = Math_sqrt roundedMath
           (Number_add (exponentiate roundedMath (Number_subtract (r_lat r) 44) 2)
                       (exponentiate roundedMath (Number_subtract (r_lon r) (- 79)) 2))"
    by blast+
  have "map_sum id (map r_id) (Inr rs :: store_error + StopWithDistance list)
      = Inr [str ''GO_UN'', str ''TTC_456'']"
    using range_eval by (simp only: rs)
  then have ids: "map r_id rs = [str ''GO_UN'', str ''TTC_456'']"
    by simp
  have "map_sum id (map distance) ?q = Inr [0, 3]"
    by (simp add: getStopsWithinRange_def Let_def latIndex_def rangeStep_def gridStops_def
        sampleStop_def storedValue_def sampleDistance_def planarDistance_grid Number_add_def
        Number_subtract_def str_def)
  then have ds: "map distance rs = [0, 3]"
    by (simp add: rs)
  from near have all: "list_all (\<lambda>r. Math_sqrt roundedMath
           (Number_add (exponentiate roundedMath (Number_subtract (r_lat r) 44) 2)
                       (exponentiate roundedMath (Number_subtract (r_lon r) (- 79)) 2)) \<le> 4) rs"
    by (simp only: list_all_iff)
  show ?thesis
    by (intro exI [of _ rs] conjI) (fact rs ids sorted ds all)+
qed


subsection \<open>C4: saving and looking up\<close>

text \<open>
  Claim C4 says that after \<open>saveStops\<close> of any list, \<open>getStop\<close> of each saved
  stop's id returns that stop's values. \<open>put\<close> replaces the record stored under a key,
  so of two stops of one list with the same id the later one is what the lookup returns.
\<close>

theorem saveStops_getStop_counterexample:
  "map_option r_name
     (getStop (str ''TTC_456'')
        (saveStops [sampleStop (str ''TTC_456'') (str ''456'') ttc (str ''King St W at Spadina Ave'') 43.648 (- 79.384),
                    sampleStop (str ''TTC_456'') (str ''456'') ttc (str ''King St W at Peter St'') 43.646 (- 79.393)] []))
     = Some (str ''King St W at Peter St'')
   \<and> stop_name (sampleStop (str ''TTC_456'') (str ''456'') ttc (str ''King St W at Spadina Ave'') 43.648 (- 79.384))
     = (str ''King St W at Spadina Ave'')
   \<and> (str ''King St W at Peter St'') \<noteq> (str ''King St W at Spadina Ave'')"
  by (simp add: sampleStop_def storedValue_def getStop_def str_def)

text \<open>
  Claim C4 as amended. For every list of stops passed to \<open>saveStops\<close>, whatever the
  store held before, and for each stop of the list that no later stop of the list shares
  its id with, a subsequent \<open>getStop\<close> of its id returns a record whose id, code,
  agency, name, lat and lon are the stop's, with \<open>distance\<close> and \<open>realDistance\<close> zero
  (and the title defaulted to the name). When the ids of the list are pairwise distinct
  this is every stop of the list (\<open>getStop_after_saveStops_distinct\<close>).
\<close>

theorem saveStops_getStop:
  assumes "stops = before @ stop # after" and "stop_id stop \<notin> stop_id ` set after"
  shows "getStop (stop_id stop) (saveStops stops db) =
       Some \<lparr> r_id = stop_id stop, r_code = stop_code stop, r_agency = stop_agency stop,
              r_name = stop_name stop, r_lat = stop_lat stop, r_lon = stop_lon stop,
              distance = 0, realDistance = 0, r_title = stop_name stop, r_lines = [],
              r_directions = [], r_type = None \<rparr>"
  unfolding assms(1)
  by (rule getStop_stored) (rule find_saveStops_last [OF assms(2)])

theorem saveStops_getStop_witness:
  "sampleStops = [sampleStop (str ''TTC_456'') (str ''456'') ttc (str ''King St W at Spadina Ave'') 43.648 (- 79.384)]
       @ sampleStop (str ''GO_UN'') (str ''UN'') go (str ''Union Station'') 43.645 (- 79.380)
       # [sampleStop (str ''TTC_900'') (str ''900'') ttc (str ''Queen St W at Bay St'') 43.653 (- 79.372),
          sampleStop (str ''YRT_12'') (str ''12'') yrt (str ''Richmond Hill Centre'') 43.840 (- 79.425)]
   \<and> getStop (str ''GO_UN'') (saveStops sampleStops []) =
       Some \<lparr> r_id = (str ''GO_UN''), r_code = (str ''UN''), r_agency = go, r_name = (str ''Union Station''),
              r_lat = 43.645, r_lon = - 79.380, distance = 0, realDistance = 0,
              r_title = (str ''Union Station''), r_lines = [], r_directions = [], r_type = None \<rparr>"
proof -
  let ?stop = "sampleStop (str ''GO_UN'') (str ''UN'') go (str ''Union Station'') 43.645 (- 79.380)"
  let ?before = "[sampleStop (str ''TTC_456'') (str ''456'') ttc (str ''King St W at Spadina Ave'') 43.648 (- 79.384)]"
  let ?after = "[sampleStop (str ''TTC_900'') (str ''900'') ttc (str ''Queen St W at Bay St'') 43.653 (- 79.372),
      sampleStop (str ''YRT_12'') (str ''12'') yrt (str ''Richmond Hill Centre'') 43.840 (- 79.425)]"
  have split: "sampleStops = ?before @ ?stop # ?after"
    by (simp add: sampleStops_def)
  have last: "stop_id ?stop \<notin> stop_id ` set ?after"
    by (simp add: sampleStop_def str_def)
  show ?thesis
    using split saveStops_getStop [OF split last, of "[]"]
    by (simp add: sampleStop_def)
qed


subsection \<open>C5: clearing one agency\<close>

text \<open>
  Claim C5. For every store state and agency \<open>X\<close>, \<open>clearAgency X\<close> deletes exactly
  the records of agency \<open>X\<close>: what remains is the store without them, in the same order;
  afterwards \<open>getAgencyCount X\<close> is 0, and for every other agency the count and the
  records are unchanged. A store state is a list that satisfies the store's invariant.
\<close>

theorem clearAgency_exact:
  assumes "wf_store db"
  shows "clearAgency X db = filter (\<lambda>s. db_agency s \<noteq> X) db
     \<and> getAgencyCount X (clearAgency X db) = 0
     \<and> (\<forall>Y. Y \<noteq> X \<longrightarrow>
           getAgencyCount Y (clearAgency X db) = getAgencyCount Y db
           \<and> agencyIndex Y (clearAgency X db) = agencyIndex Y db)"
proof -
  have eq: "clearAgency X db = filter (\<lambda>s. db_agency s \<noteq> X) db"
    using assms by (rule clearAgency_filter)
  have gone: "agencyIndex X (clearAgency X db) = []"
    unfolding eq agencyIndex_def by (simp add: filter_empty_conv)
  have kept: "agencyIndex Y (clearAgency X db) = agencyIndex Y db" if "Y \<noteq> X" for Y
    unfolding eq agencyIndex_def filter_filter
    using that by (intro filter_cong refl) auto
  show ?thesis
    using eq gone kept by (simp add: getAgencyCount_def)
qed

theorem clearAgency_exact_witness:
  "wf_store (saveStops sampleStops [])
   \<and> map db_id (saveStops sampleStops []) = [(str ''GO_UN''), (str ''TTC_456''), (str ''TTC_900''), (str ''YRT_12'')]
   \<and> map db_id (clearAgency ttc (saveStops sampleStops [])) = [(str ''GO_UN''), (str ''YRT_12'')]
   \<and> getAgencyCount ttc (saveStops sampleStops []) = 2
   \<and> getAgencyCount ttc (clearAgency ttc (saveStops sampleStops [])) = 0
   \<and> getAgencyCount go (clearAgency ttc (saveStops sampleStops [])) = 1"
proof -
  let ?db = "saveStops sampleStops []"
  have ids: "map db_id ?db = [(str ''GO_UN''), (str ''TTC_456''), (str ''TTC_900''), (str ''YRT_12'')]"
    and ags: "map db_agency ?db = [go, ttc, ttc, yrt]"
    by (simp_all add: sampleStops_def sampleStop_def storedValue_def str_def)
  have wf: "wf_store ?db"
    by (simp add: ids wf_store_def str_def)
  note t = clearAgency_exact [OF wf, of ttc]
  have count: "getAgencyCount a ?db = length (filter (\<lambda>b. b = a) (map db_agency ?db))" for a
    by (simp add: getAgencyCount_def agencyIndex_def filter_map comp_def)
  have c_ttc: "getAgencyCount ttc ?db = 2" and c_go: "getAgencyCount go ?db = 1"
    unfolding count ags by simp_all
  have "map db_id (clearAgency ttc ?db) = map db_id (filter (\<lambda>s. db_agency s \<noteq> ttc) ?db)"
    using t by (simp only:)
  also have "\<dots> = [(str ''GO_UN''), (str ''YRT_12'')]"
    by (simp add: sampleStops_def sampleStop_def storedValue_def str_def)
  finally have left: "map db_id (clearAgency ttc ?db) = [(str ''GO_UN''), (str ''YRT_12'')]" .
  have zero: "getAgencyCount ttc (clearAgency ttc ?db) = 0"
    using t by blast
  have "getAgencyCount go (clearAgency ttc ?db) = getAgencyCount go ?db"
    using t by blast
  with c_go have one: "getAgencyCount go (clearAgency ttc ?db) = 1" by simp
  show ?thesis using wf ids left c_ttc zero one by simp
qed


subsection \<open>C6: one subway record per parsed token\<close>

text \<open>
  Claim C6. The records \<open>normalizeTtcSubway\<close> emits for an item of its input are those
  it emits for the item alone, between those of the items before and after it. Their
  number is the number of comma-separated tokens of the item's \<open>nextTrains\<close> string
  that parse as integers, that is, for which \<open>parseInt\<close> of the trimmed token is not
  \<open>NaN\<close> (by \<open>parseInt_NaN_iff\<close>: a digit follows the white space and the optional
  sign). Their minutes are the parsed values in order: a token that does not parse leaves
  no record, in particular no zero-minute one. An item without \<open>nextTrains\<close> gives
  none. No record is a ghost.
\<close>

theorem normalizeTtcSubway_count:
  "normalizeTtcSubway Number_toString (before @ item # after) =
     normalizeTtcSubway Number_toString before @ normalizeTtcSubway Number_toString [item]
       @ normalizeTtcSubway Number_toString after
   \<and> (nextTrains item = None \<longrightarrow> normalizeTtcSubway Number_toString [item] = [])
   \<and> (\<forall>s. nextTrains item = Some s \<longrightarrow>
         length (normalizeTtcSubway Number_toString [item])
           = length (filter (\<lambda>t. parseInt (trim t) \<noteq> NaN) (split 0x2C s))
         \<and> map timeMinutes (normalizeTtcSubway Number_toString [item])
           = filter (\<lambda>t. t \<noteq> NaN) (map (\<lambda>t. parseInt (trim t)) (split 0x2C s)))
   \<and> (\<forall>p \<in> set (normalizeTtcSubway Number_toString response). \<not> isGhost p)"
proof (intro conjI allI impI ballI)
  show "normalizeTtcSubway Number_toString (before @ item # after) =
     normalizeTtcSubway Number_toString before @ normalizeTtcSubway Number_toString [item]
       @ normalizeTtcSubway Number_toString after"
    by (simp add: normalizeTtcSubway_concat)
next
  assume "nextTrains item = None"
  then show "normalizeTtcSubway Number_toString [item] = []"
    by (simp add: normalizeTtcSubway_single)
next
  fix s assume s: "nextTrains item = Some s"
  have "length (normalizeTtcSubway Number_toString [item])
      = length (filter (\<lambda>t. t \<noteq> NaN) (parseTimes s))"
    by (simp add: normalizeTtcSubway_single s)
  also have "\<dots> = length (filter (\<lambda>t. parseInt (trim t) \<noteq> NaN) (split 0x2C s))"
    by (simp add: parseTimes_def filter_map comp_def)
  finally show "length (normalizeTtcSubway Number_toString [item])
      = length (filter (\<lambda>t. parseInt (trim t) \<noteq> NaN) (split 0x2C s))" .
next
  fix s assume s: "nextTrains item = Some s"
  show "map timeMinutes (normalizeTtcSubway Number_toString [item])
      = filter (\<lambda>t. t \<noteq> NaN) (map (\<lambda>t. parseInt (trim t)) (split 0x2C s))"
    by (simp add: normalizeTtcSubway_single s comp_def subwayPrediction_fields parseTimes_def)
next
  fix p assume "p \<in> set (normalizeTtcSubway Number_toString response)"
  then show "\<not> isGhost p"
    unfolding subway_predictions_set by (auto simp add: subwayPrediction_fields)
qed

text \<open>
  The item of the specification's example, with four tokens of which three parse, and an
  item whose second token starts with a no-break space, which \<open>trim\<close> strips.
\<close>

theorem normalizeTtcSubway_count_witness:
  "nextTrains (sampleSubway (str ''3, 7, x, 12'')) = Some (str ''3, 7, x, 12'')
   \<and> split 0x2C (str ''3, 7, x, 12'') = [str ''3'', str '' 7'', str '' x'', str '' 12'']
   \<and> length (normalizeTtcSubway sampleToString [sampleSubway (str ''3, 7, x, 12'')]) = 3
   \<and> map timeMinutes (normalizeTtcSubway sampleToString [sampleSubway (str ''3, 7, x, 12'')])
       = [Num 3, Num 7, Num 12]
   \<and> length (normalizeTtcSubway sampleToString [sampleSubway (str ''3,'' @ 0xA0 # str ''7'')]) = 2
   \<and> map timeMinutes (normalizeTtcSubway sampleToString [sampleSubway (str ''3,'' @ 0xA0 # str ''7'')])
       = [Num 3, Num 7]"
proof -
  let ?item = "sampleSubway (str ''3, 7, x, 12'')"
  let ?nbsp = "sampleSubway (str ''3,'' @ 0xA0 # str ''7'')"
  have s: "nextTrains ?item = Some (str ''3, 7, x, 12'')"
    and s': "nextTrains ?nbsp = Some (str ''3,'' @ 0xA0 # str ''7'')"
    by (simp_all add: sampleSubway_def)
  have toks: "split 0x2C (str ''3, 7, x, 12'') = [str ''3'', str '' 7'', str '' x'', str '' 12'']"
    by (simp add: split_def str_def)
  have parsed: "map (\<lambda>t. parseInt (trim t)) (split 0x2C (str ''3, 7, x, 12''))
      = [Num 3, Num 7, NaN, Num 12]"
    using parseTimes_example by (simp add: parseTimes_def)
  have parsed': "map (\<lambda>t. parseInt (trim t)) (split 0x2C (str ''3,'' @ 0xA0 # str ''7''))
      = [Num 3, Num 7]"
    using parseTimes_no_break_space by (simp add: parseTimes_def)
  note t = normalizeTtcSubway_count [of sampleToString "[]" ?item "[]" "[]"]
  note t' = normalizeTtcSubway_count [of sampleToString "[]" ?nbsp "[]" "[]"]
  have "length (normalizeTtcSubway sampleToString [?item])
      = length (filter (\<lambda>t. parseInt (trim t) \<noteq> NaN) (split 0x2C (str ''3, 7, x, 12'')))"
    using t s by blast
  also have "\<dots> = length (filter (\<lambda>t. t \<noteq> NaN)
      (map (\<lambda>t. parseInt (trim t)) (split 0x2C (str ''3, 7, x, 12''))))"
    by (simp add: filter_map comp_def)
  finally have len: "length (normalizeTtcSubway sampleToString [?item]) = 3"
    by (simp add: parsed)
  have "map timeMinutes (normalizeTtcSubway sampleToString [?item])
      = filter (\<lambda>t. t \<noteq> NaN) (map (\<lambda>t. parseInt (trim t)) (split 0x2C (str ''3, 7, x, 12'')))"
    using t s by blast
  then have tm: "map timeMinutes (normalizeTtcSubway sampleToString [?item]) = [Num 3, Num 7, Num 12]"
    by (simp add: parsed)
  have "length (normalizeTtcSubway sampleToString [?nbsp])
      = length (filter (\<lambda>t. parseInt (trim t) \<noteq> NaN) (split 0x2C (str ''3,'' @ 0xA0 # str ''7'')))"
    using t' s' by blast
  also have "\<dots> = length (filter (\<lambda>t. t \<noteq> NaN)
      (map (\<lambda>t. parseInt (trim t)) (split 0x2C (str ''3,'' @ 0xA0 # str ''7''))))"
    by (simp add: filter_map comp_def)
  finally have len': "length (normalizeTtcSubway sampleToString [?nbsp]) = 2"
    by (simp add: parsed')
  have "map timeMinutes (normalizeTtcSubway sampleToString [?nbsp])
      = filter (\<lambda>t. t \<noteq> NaN) (map (\<lambda>t. parseInt (trim t)) (split 0x2C (str ''3,'' @ 0xA0 # str ''7'')))"
    using t' s' by blast
  then have tm': "map timeMinutes (normalizeTtcSubway sampleToString [?nbsp]) = [Num 3, Num 7]"
    by (simp add: parsed')
  show ?thesis
    by (intro conjI) (fact s toks len tm len' tm')+
qed


subsection \<open>C7: the line of a TTC record\<close>

text \<open>
  Claim C7 says that the line is the empty string whenever neither the direction title nor
  the route tag starts with a line token. The adapter falls back to the raw route tag
  before the empty string: with the title \<open>West - King\<close> and the route tag \<open>King\<close> the
  line is \<open>King\<close>.
\<close>

theorem normalizeTtc_line_counterexample:
  "Option.bind (Some (str ''West - King'')) lineRegex = None
   \<and> Option.bind (Some (str ''King'')) lineRegex = None
   \<and> map line (normalizeTtc (sampleTtc (Some (str ''West - King'')) (Some (str ''King'')) [str ''4'']))
       = [str ''King'']
   \<and> str ''King'' \<noteq> []"
  by (simp add: normalizeTtc_def sampleTtc_def ttcPrediction_def ttcRecord_def lineRegex_def
      isDigit_def orString_def orElse_def str_def)

text \<open>
  Claim C7 as amended. \<open>normalizeTtc\<close> emits one record for every arrival estimate of
  every direction of every prediction, in the order of the payload, and the line of the
  record is the leading token of that direction's title (its digits and every word
  character that follows them); if the title has none, the leading token of that
  prediction's route tag; if that has none either, the route tag itself; and the empty
  string only when the route tag is absent or empty. What the pattern yields is
  \<open>lineRegex_Some_iff\<close>.
\<close>

theorem normalizeTtc_line:
  "map line (normalizeTtc json) =
     [case Option.bind (title dir) lineRegex of
        Some tok \<Rightarrow> tok
      | None \<Rightarrow>
          (case Option.bind (routeTag pred) lineRegex of
             Some tok \<Rightarrow> tok
           | None \<Rightarrow> (case routeTag pred of Some tag \<Rightarrow> tag | None \<Rightarrow> [])).
        pred \<leftarrow> asList (predictions json), dir \<leftarrow> asList (direction pred),
        eta \<leftarrow> asList (prediction dir)]"
proof -
  have single: "concat (map (\<lambda>eta. [c]) xs) = map (\<lambda>eta. c) xs"
    for c :: jsstring and xs :: "EtaBusJson list"
    by (induction xs) simp_all
  show ?thesis
    by (simp add: normalizeTtc_records map_concat comp_def ttcPrediction_def ttcRecord_line single)
qed

text \<open>
  A prediction with the route tag \<open>29\<close> and two directions: the first, with two arrival
  estimates, has a title that starts with \<open>504A\<close>; the title of the second has no token,
  so its record takes the line from the route tag.
\<close>

theorem normalizeTtc_line_witness:
  "map line (normalizeTtc
      \<lparr>predictions = One \<lparr>routeTag = Some (str ''29''),
         direction = Many
           [\<lparr>title = Some (str ''504A - W King towards Distillery Loop''),
              prediction = Many [\<lparr>minutes = str ''4'', vehicle = None\<rparr>,
                                 \<lparr>minutes = str ''12'', vehicle = None\<rparr>]\<rparr>,
            \<lparr>title = Some (str ''North - Dufferin''),
              prediction = One \<lparr>minutes = str ''7'', vehicle = None\<rparr>\<rparr>]\<rparr>\<rparr>)
   = [str ''504A'', str ''504A'', str ''29'']"
proof -
  have "lineRegex (str ''504A - W King towards Distillery Loop'') = Some (str ''504A'')"
    "lineRegex (str ''North - Dufferin'') = None" "lineRegex (str ''29'') = Some (str ''29'')"
    by (simp_all add: lineRegex_def str_def isDigit_def isWordChar_def)
  then show ?thesis
    unfolding normalizeTtc_line by simp
qed


subsection \<open>C8: missing substructures\<close>

text \<open>
  Claim C8 says that no input makes an adapter throw. Each adapter reads a property of
  every entry of the array it runs over, and of the payload itself: when \<open>NextService\<close>
  is \<open>[null]\<close>, when the predictions array is \<open>[null]\<close>, or when an item of the subway
  response is \<open>null\<close>, the call throws \<open>TypeError\<close>.
\<close>

theorem normalizers_throw_counterexample:
  "raw_normalizeGoTransit sampleDates (\<lambda>i. 0)
       (Some \<lparr>raw_agency = str ''go'', raw_stopCode = str ''UN'',
               raw_data = Some \<lparr>raw_NextService = RawMany [None], raw_StopCode = None\<rparr>\<rparr>)
     = Inl TypeError
   \<and> raw_normalizeTtc (Some \<lparr>raw_predictions = RawMany [None]\<rparr>) = Inl TypeError
   \<and> raw_normalizeTtcSubway sampleToString (Some [Some (sampleSubway (str ''3, 7'')), None])
     = Inl TypeError"
  by (simp add: raw_normalizeGoTransit_def raw_normalizeTtc_def raw_normalizeTtcSubway_def
      sampleSubway_def)

text \<open>
  Claim C8 as amended. On a payload in which the payload and every entry of an array the
  adapter runs over is an object, and every field has its declared type, no adapter
  throws: it returns what the adapter on the declared type returns. There, a GO envelope
  without data, or whose \<open>NextService\<close> is absent or not an array, gives the empty
  result; a TTC payload without predictions gives the empty result; a prediction without a
  direction, a direction without a prediction and a subway item whose \<open>nextTrains\<close>
  is absent or empty are skipped: the result is the one the input without that entry
  gives. With fields of the declared types an adapter throws, and then \<open>TypeError\<close>,
  exactly when the payload or an entry of an array it runs over is \<open>null\<close>.
\<close>

theorem normalizers_skip_missing:
  "raw_normalizeGoTransit Date_parse clock (Some (rawGo apiResponse))
     = Inr (normalizeGoTransit Date_parse clock apiResponse)
   \<and> raw_normalizeTtc (Some (rawTtc json)) = Inr (normalizeTtc json)
   \<and> raw_normalizeTtcSubway Number_toString (Some (map Some response))
     = Inr (normalizeTtcSubway Number_toString response)
   \<and> (data apiResponse = None \<longrightarrow> normalizeGoTransit Date_parse clock apiResponse = [])
   \<and> (\<forall>d. data apiResponse = Some d \<and> (NextService d = Absent \<or> (\<exists>x. NextService d = One x)) \<longrightarrow>
         normalizeGoTransit Date_parse clock apiResponse = [])
   \<and> (predictions json = Absent \<longrightarrow> normalizeTtc json = [])
   \<and> (direction pred = Absent \<longrightarrow>
         normalizeTtc \<lparr>predictions = Many (ps @ pred # qs)\<rparr>
           = normalizeTtc \<lparr>predictions = Many (ps @ qs)\<rparr>)
   \<and> (prediction dir = Absent \<longrightarrow>
         normalizeTtc \<lparr>predictions = Many (ps @ \<lparr>routeTag = tag, direction = Many (ds @ dir # es)\<rparr> # qs)\<rparr>
           = normalizeTtc \<lparr>predictions = Many (ps @ \<lparr>routeTag = tag, direction = Many (ds @ es)\<rparr> # qs)\<rparr>)
   \<and> (nextTrains item = None \<or> nextTrains item = Some [] \<longrightarrow>
         normalizeTtcSubway Number_toString (xs @ item # ys) = normalizeTtcSubway Number_toString (xs @ ys))
   \<and> (raw_normalizeGoTransit Date_parse clock rawResponse = Inl TypeError \<longleftrightarrow>
        (case rawResponse of
           None \<Rightarrow> True
         | Some r \<Rightarrow> (case raw_data r of
                        None \<Rightarrow> False
                      | Some d \<Rightarrow> (case raw_NextService d of
                                     RawMany services \<Rightarrow> None \<in> set services
                                   | _ \<Rightarrow> False))))
   \<and> (raw_normalizeTtc rawJson = Inl TypeError \<longleftrightarrow>
        (case rawJson of None \<Rightarrow> True | Some j \<Rightarrow> ttcNull j))
   \<and> (raw_normalizeTtcSubway Number_toString rawItems = Inl TypeError \<longleftrightarrow>
        (case rawItems of None \<Rightarrow> True | Some items \<Rightarrow> None \<in> set items))"
proof (intro conjI allI impI)
  show "raw_normalizeGoTransit Date_parse clock (Some (rawGo apiResponse))
      = Inr (normalizeGoTransit Date_parse clock apiResponse)"
    by (rule raw_normalizeGoTransit_rawGo)
next
  show "raw_normalizeTtc (Some (rawTtc json)) = Inr (normalizeTtc json)"
    by (rule raw_normalizeTtc_rawTtc)
next
  show "raw_normalizeTtcSubway Number_toString (Some (map Some response))
      = Inr (normalizeTtcSubway Number_toString response)"
    by (simp add: raw_normalizeTtcSubway_def raw_subwayLoop_Some normalizeTtcSubway_def)
next
  assume "data apiResponse = None"
  then show "normalizeGoTransit Date_parse clock apiResponse = []"
    by (simp add: normalizeGoTransit_def)
next
  fix d
  assume "data apiResponse = Some d \<and> (NextService d = Absent \<or> (\<exists>x. NextService d = One x))"
  then show "normalizeGoTransit Date_parse clock apiResponse = []"
    by (auto simp add: normalizeGoTransit_def)
next
  assume "predictions json = Absent"
  then show "normalizeTtc json = []"
    by (simp add: normalizeTtc_def)
next
  assume "direction pred = Absent"
  then show "normalizeTtc \<lparr>predictions = Many (ps @ pred # qs)\<rparr>
      = normalizeTtc \<lparr>predictions = Many (ps @ qs)\<rparr>"
    by (simp add: normalizeTtc_concat predPredictions_Absent)
next
  assume "prediction dir = Absent"
  then have "predPredictions \<lparr>routeTag = tag, direction = Many (ds @ dir # es)\<rparr>
      = predPredictions \<lparr>routeTag = tag, direction = Many (ds @ es)\<rparr>"
    using directionPredictions_routeTag [of tag "Many (ds @ dir # es)" "Many (ds @ es)"]
    by (simp add: predPredictions_def directionPredictions_Absent)
  then show "normalizeTtc \<lparr>predictions = Many (ps @ \<lparr>routeTag = tag, direction = Many (ds @ dir # es)\<rparr> # qs)\<rparr>
      = normalizeTtc \<lparr>predictions = Many (ps @ \<lparr>routeTag = tag, direction = Many (ds @ es)\<rparr> # qs)\<rparr>"
    by (simp add: normalizeTtc_concat)
next
  assume "nextTrains item = None \<or> nextTrains item = Some []"
  then have "normalizeTtcSubway Number_toString [item] = []"
    by (auto simp add: normalizeTtcSubway_def)
  then show "normalizeTtcSubway Number_toString (xs @ item # ys)
      = normalizeTtcSubway Number_toString (xs @ ys)"
    using normalizeTtcSubway_append [of Number_toString xs "item # ys"]
      normalizeTtcSubway_append [of Number_toString xs ys]
      normalizeTtcSubway_Cons [of Number_toString item ys]
    by simp
next
  show "raw_normalizeGoTransit Date_parse clock rawResponse = Inl TypeError \<longleftrightarrow>
        (case rawResponse of
           None \<Rightarrow> True
         | Some r \<Rightarrow> (case raw_data r of
                        None \<Rightarrow> False
                      | Some d \<Rightarrow> (case raw_NextService d of
                                     RawMany services \<Rightarrow> None \<in> set services
                                   | _ \<Rightarrow> False)))"
    unfolding TypeError_iff_isl
    by (simp add: raw_normalizeGoTransit_def raw_serviceMap_error
        split: option.split raw_one_or_many.split)
next
  show "raw_normalizeTtc rawJson = Inl TypeError \<longleftrightarrow>
        (case rawJson of None \<Rightarrow> True | Some j \<Rightarrow> ttcNull j)"
    unfolding TypeError_iff_isl
    by (cases rawJson) (simp_all add: raw_normalizeTtc_error, simp add: raw_normalizeTtc_def)
next
  show "raw_normalizeTtcSubway Number_toString rawItems = Inl TypeError \<longleftrightarrow>
        (case rawItems of None \<Rightarrow> True | Some items \<Rightarrow> None \<in> set items)"
    unfolding TypeError_iff_isl
    by (simp add: raw_normalizeTtcSubway_def raw_subwayLoop_error split: option.split)
qed

text \<open>
  Payloads of the declared types with something missing: an envelope without data, one
  whose \<open>NextService\<close> is a bare object, a TTC payload without predictions, a
  prediction without directions, a direction without predictions and a subway item with
  an empty \<open>nextTrains\<close>. None throws, each gives the empty result.
\<close>

theorem normalizers_skip_missing_witness:
  "raw_normalizeGoTransit sampleDates (\<lambda>i. 0)
       (Some (rawGo \<lparr>resp_agency = str ''go'', resp_stopCode = str ''UN'', data = None\<rparr>)) = Inr []
   \<and> raw_normalizeGoTransit sampleDates (\<lambda>i. 0)
       (Some (rawGo \<lparr>resp_agency = str ''go'', resp_stopCode = str ''UN'',
          data = Some \<lparr>NextService = One sampleService, StopCode = None\<rparr>\<rparr>)) = Inr []
   \<and> raw_normalizeTtc (Some (rawTtc \<lparr>predictions = Absent\<rparr>)) = Inr []
   \<and> raw_normalizeTtc (Some (rawTtc
        \<lparr>predictions = Many [\<lparr>routeTag = Some (str ''504''), direction = Absent\<rparr>]\<rparr>)) = Inr []
   \<and> raw_normalizeTtc (Some (rawTtc \<lparr>predictions = Many [\<lparr>routeTag = Some (str ''504''),
          direction = Many [\<lparr>title = Some (str ''504 - W King''), prediction = Absent\<rparr>]\<rparr>]\<rparr>)) = Inr []
   \<and> raw_normalizeTtcSubway sampleToString
        (Some (map Some [\<lparr>nextTrains = Some [], directionText = Some (str ''Northbound''),
                          item_line = Some 1\<rparr>])) = Inr []"
proof -
  let ?none = "\<lparr>resp_agency = str ''go'', resp_stopCode = str ''UN'', data = None\<rparr>"
  let ?d = "\<lparr>NextService = One sampleService, StopCode = None\<rparr>"
  let ?one = "\<lparr>resp_agency = str ''go'', resp_stopCode = str ''UN'', data = Some ?d\<rparr>"
  let ?pred = "\<lparr>routeTag = Some (str ''504''), direction = Absent\<rparr>"
  let ?dir = "\<lparr>title = Some (str ''504 - W King''), prediction = Absent\<rparr>"
  let ?item = "\<lparr>nextTrains = Some [], directionText = Some (str ''Northbound''), item_line = Some 1\<rparr>"
  let ?j1 = "\<lparr>predictions = Absent\<rparr>"
  let ?j2 = "\<lparr>predictions = Many ([] @ ?pred # [])\<rparr>"
  let ?j3 = "\<lparr>predictions = Many ([] @ \<lparr>routeTag = Some (str ''504''), direction = Many ([] @ ?dir # [])\<rparr> # [])\<rparr>"
  note a = normalizers_skip_missing [of sampleDates "\<lambda>i. 0" ?none ?j1 sampleToString "[?item]"
      ?pred "[]" "[]" ?dir "Some (str ''504'')" "[]" "[]" ?item "[]" "[]"]
  note b = normalizers_skip_missing [of sampleDates "\<lambda>i. 0" ?one ?j2 sampleToString "[?item]"
      ?pred "[]" "[]" ?dir "Some (str ''504'')" "[]" "[]" ?item "[]" "[]"]
  note c = normalizers_skip_missing [of sampleDates "\<lambda>i. 0" ?one ?j3 sampleToString "[?item]"
      ?pred "[]" "[]" ?dir "Some (str ''504'')" "[]" "[]" ?item "[]" "[]"]
  have g1: "normalizeGoTransit sampleDates (\<lambda>i. 0) ?none = []"
    using a by simp
  have "data ?one = Some ?d \<and> (NextService ?d = Absent \<or> (\<exists>x. NextService ?d = One x))"
    by simp
  with b have g2: "normalizeGoTransit sampleDates (\<lambda>i. 0) ?one = []"
    by blast
  have t1: "normalizeTtc ?j1 = []"
    using a by simp
  have "normalizeTtc ?j2 = normalizeTtc \<lparr>predictions = Many ([] @ [])\<rparr>"
    using a by simp
  then have t2: "normalizeTtc ?j2 = []"
    by (simp add: normalizeTtc_def)
  have "normalizeTtc ?j3
      = normalizeTtc \<lparr>predictions = Many ([] @ \<lparr>routeTag = Some (str ''504''), direction = Many ([] @ [])\<rparr> # [])\<rparr>"
    using a by simp
  then have t3: "normalizeTtc ?j3 = []"
    by (simp add: normalizeTtc_def)
  have "normalizeTtcSubway sampleToString ([] @ ?item # []) = normalizeTtcSubway sampleToString ([] @ [])"
    using a by simp
  then have s1: "normalizeTtcSubway sampleToString [?item] = []"
    by (simp add: normalizeTtcSubway_def)
  have "raw_normalizeGoTransit sampleDates (\<lambda>i. 0) (Some (rawGo ?none)) = Inr []"
    using a g1 by simp
  moreover have "raw_normalizeGoTransit sampleDates (\<lambda>i. 0) (Some (rawGo ?one)) = Inr []"
    using b g2 by simp
  moreover have "raw_normalizeTtc (Some (rawTtc ?j1)) = Inr []"
    using a t1 by simp
  moreover have "raw_normalizeTtc (Some (rawTtc ?j2)) = Inr []"
    using b t2 by simp
  moreover have "raw_normalizeTtc (Some (rawTtc ?j3)) = Inr []"
    using c t3 by simp
  moreover have "raw_normalizeTtcSubway sampleToString (Some (map Some [?item])) = Inr []"
    using a s1 by simp
  ultimately show ?thesis by simp
qed


subsection \<open>C9: determinism\<close>





subsection \<open>C10: a tracked entry without a computed time\<close>

text \<open>
  Claim C10. When an entry's \<open>Computed\<close> flag is 1 and its \<open>ComputedDepartureTime\<close>
  is absent (or the empty string), \<open>timeMinutes\<close> is computed from the scheduled
  departure time, and \<open>isGhost\<close> is still false.
\<close>

theorem normalizeGoTransit_computed_absent:
  assumes "data apiResponse = Some d" and "NextService d = Many services"
    and "i < length services" and "Computed (services ! i) = 1"
    and "ComputedDepartureTime (services ! i) = None \<or> ComputedDepartureTime (services ! i) = Some []"
  shows "timeMinutes (normalizeGoTransit Date_parse clock apiResponse ! i) =
       (case Date_parse (ScheduledDepartureTime (services ! i)) of
          None \<Rightarrow> NaN
        | Some t \<Rightarrow> Num (max 0 (Math_round (real_of_int (t - clock i) / 60000))))
     \<and> \<not> isGhost (normalizeGoTransit Date_parse clock apiResponse ! i)"
proof -
  have sv: "goServices apiResponse = services"
    using assms(1,2) by (rule goServices_Many)
  have nth: "normalizeGoTransit Date_parse clock apiResponse ! i
      = goService Date_parse (clock i) (services ! i)"
    using normalizeGoTransit_nth [of i apiResponse Date_parse clock] assms(3) sv by simp
  show ?thesis
    unfolding nth
    using goService_minutes_fallback [OF assms(4,5)] assms(4)
    by (simp add: goService_isGhost)
qed

theorem normalizeGoTransit_computed_absent_witness:
  "Computed (sampleService\<lparr>ComputedDepartureTime := None\<rparr>) = 1
   \<and> ComputedDepartureTime (sampleService\<lparr>ComputedDepartureTime := None\<rparr>) = None
   \<and> timeMinutes (normalizeGoTransit sampleDates (\<lambda>i. 0)
        (sampleGo [sampleService\<lparr>ComputedDepartureTime := None\<rparr>]) ! 0) = Num 5
   \<and> \<not> isGhost (normalizeGoTransit sampleDates (\<lambda>i. 0)
        (sampleGo [sampleService\<lparr>ComputedDepartureTime := None\<rparr>]) ! 0)"
proof -
  let ?svs = "[sampleService\<lparr>ComputedDepartureTime := None\<rparr>]"
  let ?d = "\<lparr> NextService = Many ?svs, StopCode = Some (str ''UN'') \<rparr>"
  have d: "data (sampleGo ?svs) = Some ?d" by (simp add: sampleGo_def)
  have n: "NextService ?d = Many ?svs" by simp
  have i0: "(0::nat) < length ?svs" by simp
  have c: "Computed (?svs ! 0) = 1" by (simp add: sampleService_def)
  have a: "ComputedDepartureTime (?svs ! 0) = None \<or> ComputedDepartureTime (?svs ! 0) = Some []"
    by simp
  have s: "ScheduledDepartureTime (?svs ! 0) = (str ''2024-05-01T12:05:00'')"
    by (simp add: sampleService_def)
  have p: "sampleDates (str ''2024-05-01T12:05:00'') = Some 300000"
    by (simp add: sampleDates_def str_def)
  have m: "Math_round (real_of_int (300000 - 0) / 60000) = 5"
    by (simp add: Math_round_def)
  note e = normalizeGoTransit_computed_absent [OF d n i0 c a, of sampleDates "\<lambda>i. 0"]
  have "timeMinutes (normalizeGoTransit sampleDates (\<lambda>i. 0) (sampleGo ?svs) ! 0) = Num 5"
    using e s p m by simp
  moreover have "\<not> isGhost (normalizeGoTransit sampleDates (\<lambda>i. 0) (sampleGo ?svs) ! 0)"
    using e by simp
  moreover have "Computed (sampleService\<lparr>ComputedDepartureTime := None\<rparr>) = 1"
    by (simp add: sampleService_def)
  ultimately show ?thesis by simp
qed

end
